theory Spec2Isabelle
  imports Main "HOL-Library.Sublist"
begin

section \<open>The CKAN adapter of the ODP API: a shallow embedding\<close>

text \<open>
  The adapter (\<^verbatim>\<open>src/odp_api_adapters/ckan_adapter.py\<close>) is one class, \<^verbatim>\<open>CKANAdapter\<close>,
  whose methods translate domain objects to keyword arguments of CKAN actions, send them
  through \<^verbatim>\<open>ckanapi.RemoteCKAN(...).call_action\<close>, map the client library's exceptions to
  \<^verbatim>\<open>HTTPException\<close>s and translate the answers back.

  The remote CKAN is not part of the repository. It is a parameter of the model: a
  function from a request and the remote's state to an outcome and the remote's next state.
  Every method is a function on a \<open>world\<close>: the remote's state, the list of requests sent
  so far and the lines written to the logger.
\<close>

subsection \<open>Python values\<close>

datatype pyval =
    PNone
  | PBool bool
  | PInt int
  | PStr string
  | PList "pyval list"
  | PDict "(string \<times> pyval) list"

text \<open>A \<^verbatim>\<open>dict\<close> with string keys, in insertion order.\<close>

type_synonym pydict = "(string \<times> pyval) list"

text \<open>\<^verbatim>\<open>d[k] = v\<close>: an existing key keeps its place, a new key goes to the end.\<close>

primrec setitem :: "pydict \<Rightarrow> string \<Rightarrow> pyval \<Rightarrow> pydict" where
  "setitem [] k v = [(k, v)]"
| "setitem (p # ps) k v = (if fst p = k then (k, v) # ps else p # setitem ps k v)"

text \<open>\<^verbatim>\<open>d.update(other)\<close>: \<^verbatim>\<open>d[k] = v\<close> for every item of \<^verbatim>\<open>other\<close>, in its order.\<close>

definition dict_update :: "pydict \<Rightarrow> pydict \<Rightarrow> pydict" where
  "dict_update d other = foldl (\<lambda>acc (k, v). setitem acc k v) d other"

text \<open>\<^verbatim>\<open>s.endswith(suffix)\<close> and \<^verbatim>\<open>sub in s\<close> on strings.\<close>

definition endswith :: "string \<Rightarrow> string \<Rightarrow> bool" where
  "endswith s suf \<longleftrightarrow> length suf \<le> length s \<and> drop (length s - length suf) s = suf"

fun startswith :: "string \<Rightarrow> string \<Rightarrow> bool" where
  "startswith s [] = True"
| "startswith [] (c # cs) = False"
| "startswith (d # ds) (c # cs) = (d = c \<and> startswith ds cs)"

fun contains :: "string \<Rightarrow> string \<Rightarrow> bool" where
  "contains [] sub = (sub = [])"
| "contains (d # ds) sub = (startswith (d # ds) sub \<or> contains ds sub)"

text \<open>
  A keyword argument of an action call. \<open>JsonDumps v\<close> stands for the string that
  \<^verbatim>\<open>json.dumps(v)\<close> returns; its text plays no part in what the adapter does.
\<close>

datatype arg = Val pyval | JsonDumps pyval

subsection \<open>The domain models (\<^verbatim>\<open>odp.api.models\<close>)\<close>

text \<open>
  The pydantic models are imported from another package. Their fields are the ones the
  adapter reads and writes; a field carries a prefix for its class, since record fields
  share one name space: \<open>mr_\<close> \<^verbatim>\<open>MetadataRecord\<close>, \<open>mi_\<close> \<^verbatim>\<open>MetadataRecordIn\<close>,
  \<open>vr_\<close> \<^verbatim>\<open>MetadataValidationResult\<close>, \<open>wr_\<close> \<^verbatim>\<open>MetadataWorkflowResult\<close>,
  \<open>co_\<close> \<^verbatim>\<open>Collection\<close>, \<open>ci_\<close> \<^verbatim>\<open>CollectionIn\<close>, \<open>pr_\<close> \<^verbatim>\<open>Project\<close>.
\<close>

record MetadataRecord =
  mr_institution_key :: string
  mr_collection_key :: string
  mr_schema_key :: string
  mr_metadata :: pyval
  mr_id :: string
  mr_pid :: "string option"
  mr_doi :: "string option"
  mr_validated :: bool
  mr_errors :: pydict
  mr_state :: string

record MetadataRecordIn =
  mi_collection_key :: string
  mi_schema_key :: string
  mi_metadata :: pyval
  mi_doi :: "string option"
  mi_auto_assign_doi :: bool
  mi_terms_conditions_accepted :: bool
  mi_data_agreement_accepted :: bool
  mi_data_agreement_url :: "string option"
  mi_capture_method :: string

record MetadataValidationResult =
  vr_success :: bool
  vr_errors :: pydict

record MetadataWorkflowResult =
  wr_success :: bool
  wr_errors :: pydict

record Collection =
  co_institution_key :: string
  co_key :: string
  co_name :: string
  co_description :: "string option"
  co_doi_scope :: "string option"
  co_project_keys :: "string list"

record CollectionIn =
  ci_key :: string
  ci_name :: string
  ci_description :: "string option"
  ci_doi_scope :: "string option"
  ci_project_keys :: "string list"

record Project =
  pr_key :: string
  pr_name :: string
  pr_description :: "string option"

subsection \<open>What CKAN answers\<close>

text \<open>
  The dictionaries CKAN returns, with the keys the adapter reads (prefix \<open>r_\<close> for a
  metadata record, \<open>f_\<close> for one validation result of a validation activity, \<open>i_\<close> for an
  infrastructure reference, \<open>c_\<close> for a collection, \<open>p_\<close> for a project). An answer of
  another shape than the one a method subscripts makes Python raise \<^verbatim>\<open>KeyError\<close> or
  \<^verbatim>\<open>TypeError\<close>; the model has one error for both, \<open>ShapeError\<close>.
\<close>

record ckan_record =
  r_owner_org :: string
  r_metadata_collection_id :: string
  r_metadata_standard_id :: string
  r_metadata_json :: pyval
  r_id :: string
  r_name :: string
  r_doi :: "string option"
  r_validated :: bool
  r_errors :: pydict
  r_workflow_state_id :: string
  r_state :: string

record ckan_validation_result =
  f_errors :: pydict

record ckan_infrastructure_ref =
  i_id :: string

record ckan_collection =
  c_organization_id :: string
  c_name :: string
  c_title :: string
  c_description :: "string option"
  c_doi_collection :: "string option"
  c_infrastructures :: "ckan_infrastructure_ref list"

record ckan_project =
  p_name :: string
  p_title :: string
  p_description :: "string option"

datatype ckan_value =
    RecordDict ckan_record
  | RecordList "ckan_record list"
  | ValidationActivity "ckan_validation_result list"
      \<comment> \<open>\<^verbatim>\<open>{'data': {'results': [{'errors': {...}}, ...]}}\<close>\<close>
  | WorkflowActivity pydict
      \<comment> \<open>\<^verbatim>\<open>{'data': {'errors': {...}}}\<close>\<close>
  | CollectionDict ckan_collection
  | CollectionList "ckan_collection list"
  | ProjectDict ckan_project
  | ProjectList "ckan_project list"
  | OtherValue pyval

text \<open>
  What \<^verbatim>\<open>call_action\<close> raises: \<^verbatim>\<open>requests.RequestException\<close>, and
  \<^verbatim>\<open>ckanapi.CKANAPIError\<close> with its subclasses \<^verbatim>\<open>ValidationError\<close>, \<^verbatim>\<open>NotAuthorized\<close> and
  \<^verbatim>\<open>NotFound\<close>. The string is \<^verbatim>\<open>str(e)\<close>. \<open>CKANAPIError\<close> is an API error of none of the
  three subclasses.
\<close>

datatype ckan_exc =
    RequestException string
  | ValidationError string
  | NotAuthorized string
  | NotFound string
  | CKANAPIError string

text \<open>What a method of the adapter raises.\<close>

datatype exn =
    HTTPException (status_code: nat) (detail: string)
  | ShapeError

definition HTTP_400_BAD_REQUEST :: nat where "HTTP_400_BAD_REQUEST = 400"
definition HTTP_403_FORBIDDEN :: nat where "HTTP_403_FORBIDDEN = 403"
definition HTTP_404_NOT_FOUND :: nat where "HTTP_404_NOT_FOUND = 404"
definition HTTP_503_SERVICE_UNAVAILABLE :: nat where "HTTP_503_SERVICE_UNAVAILABLE = 503"

subsection \<open>The adapter and the world it acts on\<close>

record request =
  req_url :: string
  req_action :: string
  req_data_dict :: "(string \<times> arg) list"
  req_apikey :: string
  req_verify :: bool

datatype level = WARNING | ERROR

record 'b world =
  backend :: 'b
  calls :: "request list"
  logged :: "(level \<times> string) list"

text \<open>
  \<^verbatim>\<open>self\<close>: the server's URL, \<^verbatim>\<open>self.app_config.SERVER_ENV\<close>, and the remote that
  \<^verbatim>\<open>ckanapi.RemoteCKAN(url).call_action\<close> talks to.
\<close>

record 'b CKANAdapter =
  ckan_server_url :: string
  SERVER_ENV :: string
  call_action :: "request \<Rightarrow> 'b \<Rightarrow> (ckan_exc + ckan_value) \<times> 'b"

definition log :: "level \<Rightarrow> string \<Rightarrow> 'b world \<Rightarrow> 'b world" where
  "log lvl msg s = s\<lparr>logged := logged s @ [(lvl, msg)]\<rparr>"

subsection \<open>\<^verbatim>\<open>_call_ckan\<close>\<close>

text \<open>
  The request that \<^verbatim>\<open>_call_ckan\<close> hands to \<^verbatim>\<open>call_action\<close>: the action and its keyword
  arguments as \<^verbatim>\<open>data_dict\<close>, the token as a bearer key, and certificate verification
  unless the server runs in development.
\<close>

definition sent :: "'b CKANAdapter \<Rightarrow> string \<Rightarrow> string \<Rightarrow> (string \<times> arg) list \<Rightarrow> request" where
  "sent self action access_token kwargs =
     \<lparr>req_url = ckan_server_url self,
      req_action = action,
      req_data_dict = kwargs,
      req_apikey = ''Bearer '' @ access_token,
      req_verify = (SERVER_ENV self \<noteq> ''development'')\<rparr>"

definition call_ckan ::
  "'b CKANAdapter \<Rightarrow> string \<Rightarrow> string \<Rightarrow> (string \<times> arg) list \<Rightarrow> 'b world
     \<Rightarrow> (exn + ckan_value) \<times> 'b world" where
  "call_ckan self action access_token kwargs s =
     (let req = sent self action access_token kwargs;
          (outcome, b') = call_action self req (backend s);
          s' = s\<lparr>backend := b', calls := calls s @ [req]\<rparr>
      in case outcome of
           Inr v \<Rightarrow> (Inr v, s')
         | Inl (RequestException e) \<Rightarrow>
             (Inl (HTTPException HTTP_503_SERVICE_UNAVAILABLE
                     (''Error sending request to CKAN: '' @ e)), s')
         | Inl (ValidationError e) \<Rightarrow>
             (Inl (HTTPException HTTP_400_BAD_REQUEST
                     (''CKAN validation error: '' @ e)), s')
         | Inl (NotAuthorized e) \<Rightarrow>
             (Inl (HTTPException HTTP_403_FORBIDDEN
                     (''Not authorized to access CKAN resource: '' @ e)), s')
         | Inl (NotFound e) \<Rightarrow>
             (Inl (HTTPException HTTP_404_NOT_FOUND
                     (''CKAN resource not found: '' @ e)), s')
         | Inl (CKANAPIError e) \<Rightarrow>
             (Inl (HTTPException HTTP_400_BAD_REQUEST
                     (''CKAN error: '' @ e)), s'))"

subsection \<open>Metadata records\<close>

definition translate_from_ckan_record :: "ckan_record \<Rightarrow> MetadataRecord" where
  "translate_from_ckan_record ckan_record =
     \<lparr>mr_institution_key = r_owner_org ckan_record,
      mr_collection_key = r_metadata_collection_id ckan_record,
      mr_schema_key = r_metadata_standard_id ckan_record,
      mr_metadata = r_metadata_json ckan_record,
      mr_id = r_id ckan_record,
      mr_pid = (if r_name ckan_record \<noteq> r_id ckan_record
                then Some (r_name ckan_record) else None),
      mr_doi = r_doi ckan_record,
      mr_validated = r_validated ckan_record,
      mr_errors = r_errors ckan_record,
      mr_state = r_workflow_state_id ckan_record\<rparr>"

definition opt_str :: "string option \<Rightarrow> pyval" where
  "opt_str x = (case x of None \<Rightarrow> PNone | Some s \<Rightarrow> PStr s)"

definition translate_to_ckan_record ::
  "string \<Rightarrow> MetadataRecordIn \<Rightarrow> (string \<times> arg) list" where
  "translate_to_ckan_record institution_key metadata_record =
     [(''owner_org'', Val (PStr institution_key)),
      (''metadata_collection_id'', Val (PStr (mi_collection_key metadata_record))),
      (''metadata_standard_id'', Val (PStr (mi_schema_key metadata_record))),
      (''metadata_json'', JsonDumps (mi_metadata metadata_record)),
      (''doi'', Val (opt_str (mi_doi metadata_record))),
      (''auto_assign_doi'', Val (PBool (mi_auto_assign_doi metadata_record)))]"

definition get_metadata_record ::
  "'b CKANAdapter \<Rightarrow> string \<Rightarrow> string \<Rightarrow> string \<Rightarrow> 'b world
     \<Rightarrow> (exn + MetadataRecord) \<times> 'b world" where
  "get_metadata_record self institution_key record_id access_token s =
     (case call_ckan self ''metadata_record_show'' access_token
             [(''id'', Val (PStr record_id)), (''deserialize_json'', Val (PBool True))] s of
        (Inl e, s1) \<Rightarrow> (Inl e, s1)
      | (Inr (RecordDict ckan_record), s1) \<Rightarrow>
          if r_state ckan_record \<noteq> ''active'' \<or> r_owner_org ckan_record \<noteq> institution_key
          then (Inl (HTTPException HTTP_404_NOT_FOUND ''CKAN resource not found''), s1)
          else (Inr (translate_from_ckan_record ckan_record), s1)
      | (Inr _, s1) \<Rightarrow> (Inl ShapeError, s1))"


text \<open>The two lines the adapter writes to its logger (the f-strings of the source).\<close>

definition annotation_error_text :: "string \<Rightarrow> string \<Rightarrow> string \<Rightarrow> string" where
  "annotation_error_text key record_id err =
     ''Error setting '' @ [CHR 0x22] @ key @ [CHR 0x22] @ '' annotation on metadata record ''
       @ record_id @ '': '' @ err"

definition validation_warning_text :: "string \<Rightarrow> string \<Rightarrow> string" where
  "validation_warning_text record_id d =
     ''An error occurred while validating metadata record '' @ record_id @ '': '' @ d"

text \<open>
  \<^verbatim>\<open>_annotate_metadata_record\<close>. The inner function \<^verbatim>\<open>annotate\<close> closes over \<^verbatim>\<open>self\<close>,
  \<^verbatim>\<open>record_id\<close> and \<^verbatim>\<open>access_token\<close>; here they are arguments. \<^verbatim>\<open>err\<close> is \<open>None\<close> or the
  detail of the error that is left, and is logged when it is truthy.
\<close>

definition annotate ::
  "'b CKANAdapter \<Rightarrow> string \<Rightarrow> string \<Rightarrow> string \<Rightarrow> pyval \<Rightarrow> 'b world
     \<Rightarrow> (exn + unit) \<times> 'b world" where
  \<open>annotate self record_id access_token key value s =
     (let kwargs = [(''id'', Val (PStr record_id)), (''key'', Val (PStr key)),
                    (''value'', JsonDumps value)]
      in case call_ckan self ''metadata_record_workflow_annotation_create'' access_token
                kwargs s of
           (Inr _, s1) \<Rightarrow> (Inr (), s1)
         | (Inl (HTTPException code d), s1) \<Rightarrow>
             (case (if code = 400
                    then (case call_ckan self ''metadata_record_workflow_annotation_update''
                                 access_token kwargs s1 of
                            (Inr _, s2) \<Rightarrow> (Inr None, s2)
                          | (Inl (HTTPException code2 d2), s2) \<Rightarrow> (Inr (Some d2), s2)
                          | (Inl e2, s2) \<Rightarrow> (Inl e2, s2))
                    else (Inr (Some d), s1)) of
                (Inl e2, s2) \<Rightarrow> (Inl e2, s2)
              | (Inr err, s2) \<Rightarrow>
                  (case err of
                     None \<Rightarrow> (Inr (), s2)
                   | Some msg \<Rightarrow>
                       if msg \<noteq> []
                       then (Inr (), log ERROR (annotation_error_text key record_id msg) s2)
                       else (Inr (), s2)))
         | (Inl e, s1) \<Rightarrow> (Inl e, s1))\<close>

definition annotate_metadata_record ::
  "'b CKANAdapter \<Rightarrow> string \<Rightarrow> MetadataRecordIn \<Rightarrow> string \<Rightarrow> 'b world
     \<Rightarrow> (exn + unit) \<times> 'b world" where
  "annotate_metadata_record self record_id metadata_record access_token s =
     (case annotate self record_id access_token ''terms_and_conditions''
             (PDict [(''accepted'', PBool (mi_terms_conditions_accepted metadata_record))]) s of
        (Inl e, s1) \<Rightarrow> (Inl e, s1)
      | (Inr _, s1) \<Rightarrow>
     (case annotate self record_id access_token ''data_agreement''
             (PDict [(''accepted'', PBool (mi_data_agreement_accepted metadata_record)),
                     (''href'', opt_str (mi_data_agreement_url metadata_record))]) s1 of
        (Inl e, s2) \<Rightarrow> (Inl e, s2)
      | (Inr _, s2) \<Rightarrow>
          annotate self record_id access_token ''capture_info''
             (PDict [(''capture_method'', PStr (mi_capture_method metadata_record))]) s2))"

definition validate_metadata_record ::
  "'b CKANAdapter \<Rightarrow> string \<Rightarrow> string \<Rightarrow> string \<Rightarrow> 'b world
     \<Rightarrow> (exn + MetadataValidationResult) \<times> 'b world" where
  "validate_metadata_record self institution_key record_id access_token s =
     (case get_metadata_record self institution_key record_id access_token s of
        (Inl e, s1) \<Rightarrow> (Inl e, s1)
      | (Inr _, s1) \<Rightarrow>
     (case call_ckan self ''metadata_record_validate'' access_token
             [(''id'', Val (PStr record_id))] s1 of
        (Inl e, s2) \<Rightarrow> (Inl e, s2)
      | (Inr (ValidationActivity validation_results), s2) \<Rightarrow>
          (let validation_errors =
                 foldl (\<lambda>validation_errors validation_result.
                          dict_update validation_errors (f_errors validation_result))
                   [] validation_results
           in (Inr \<lparr>vr_success = (validation_errors = []),
                    vr_errors = validation_errors\<rparr>, s2))
      | (Inr _, s2) \<Rightarrow> (Inl ShapeError, s2)))"

definition create_or_update_metadata_record ::
  "'b CKANAdapter \<Rightarrow> string \<Rightarrow> MetadataRecordIn \<Rightarrow> string \<Rightarrow> 'b world
     \<Rightarrow> (exn + MetadataRecord) \<times> 'b world" where
  "create_or_update_metadata_record self institution_key metadata_record access_token s =
     (let input_dict = translate_to_ckan_record institution_key metadata_record
      in case call_ckan self ''metadata_record_create'' access_token
                ((''deserialize_json'', Val (PBool True)) # input_dict) s of
           (Inl e, s1) \<Rightarrow> (Inl e, s1)
         | (Inr (RecordDict ckan_record), s1) \<Rightarrow>
             (let record_id = r_id ckan_record
              in case annotate_metadata_record self record_id metadata_record access_token s1 of
                   (Inl e, s2) \<Rightarrow> (Inl e, s2)
                 | (Inr _, s2) \<Rightarrow>
                     if \<not> r_validated ckan_record
                     then (case validate_metadata_record self institution_key record_id
                                  access_token s2 of
                             (Inr validaton_result, s3) \<Rightarrow>
                               (Inr (translate_from_ckan_record
                                       (ckan_record\<lparr>r_validated := True,
                                          r_errors := vr_errors validaton_result\<rparr>)), s3)
                           | (Inl (HTTPException code d), s3) \<Rightarrow>
                               (Inr (translate_from_ckan_record ckan_record),
                                log WARNING (validation_warning_text record_id d) s3)
                           | (Inl e, s3) \<Rightarrow> (Inl e, s3))
                     else (Inr (translate_from_ckan_record ckan_record), s2))
         | (Inr _, s1) \<Rightarrow> (Inl ShapeError, s1))"

text \<open>
  In \<^verbatim>\<open>update_metadata_record\<close> the answer of the update action is first subscripted after
  the annotations, so an answer of another shape fails only then.
\<close>

definition update_metadata_record ::
  "'b CKANAdapter \<Rightarrow> string \<Rightarrow> string \<Rightarrow> MetadataRecordIn \<Rightarrow> string \<Rightarrow> 'b world
     \<Rightarrow> (exn + MetadataRecord) \<times> 'b world" where
  "update_metadata_record self institution_key record_id metadata_record access_token s =
     (case get_metadata_record self institution_key record_id access_token s of
        (Inl e, s0) \<Rightarrow> (Inl e, s0)
      | (Inr _, s0) \<Rightarrow>
     (let input_dict = translate_to_ckan_record institution_key metadata_record
      in case call_ckan self ''metadata_record_update'' access_token
                ((''id'', Val (PStr record_id)) # (''deserialize_json'', Val (PBool True))
                   # input_dict) s0 of
           (Inl e, s1) \<Rightarrow> (Inl e, s1)
         | (Inr v, s1) \<Rightarrow>
             (case annotate_metadata_record self record_id metadata_record access_token s1 of
                (Inl e, s2) \<Rightarrow> (Inl e, s2)
              | (Inr _, s2) \<Rightarrow>
                  (case v of
                     RecordDict ckan_record \<Rightarrow>
                       if \<not> r_validated ckan_record
                       then (case validate_metadata_record self institution_key record_id
                                    access_token s2 of
                               (Inr validaton_result, s3) \<Rightarrow>
                                 (Inr (translate_from_ckan_record
                                         (ckan_record\<lparr>r_validated := True,
                                            r_errors := vr_errors validaton_result\<rparr>)), s3)
                             | (Inl (HTTPException code d), s3) \<Rightarrow>
                                 (Inr (translate_from_ckan_record ckan_record),
                                  log WARNING (validation_warning_text record_id d) s3)
                             | (Inl e, s3) \<Rightarrow> (Inl e, s3))
                       else (Inr (translate_from_ckan_record ckan_record), s2)
                   | _ \<Rightarrow> (Inl ShapeError, s2)))))"

definition delete_metadata_record ::
  "'b CKANAdapter \<Rightarrow> string \<Rightarrow> string \<Rightarrow> string \<Rightarrow> 'b world
     \<Rightarrow> (exn + bool) \<times> 'b world" where
  "delete_metadata_record self institution_key record_id access_token s =
     (case get_metadata_record self institution_key record_id access_token s of
        (Inl e, s1) \<Rightarrow> (Inl e, s1)
      | (Inr _, s1) \<Rightarrow>
     (case call_ckan self ''metadata_record_delete'' access_token
             [(''id'', Val (PStr record_id))] s1 of
        (Inl e, s2) \<Rightarrow> (Inl e, s2)
      | (Inr _, s2) \<Rightarrow> (Inr True, s2)))"

definition change_state_of_metadata_record ::
  "'b CKANAdapter \<Rightarrow> string \<Rightarrow> string \<Rightarrow> string \<Rightarrow> string \<Rightarrow> 'b world
     \<Rightarrow> (exn + MetadataWorkflowResult) \<times> 'b world" where
  "change_state_of_metadata_record self institution_key record_id state access_token s =
     (case get_metadata_record self institution_key record_id access_token s of
        (Inl e, s1) \<Rightarrow> (Inl e, s1)
      | (Inr _, s1) \<Rightarrow>
     (case call_ckan self ''metadata_record_workflow_state_transition'' access_token
             [(''id'', Val (PStr record_id)), (''workflow_state_id'', Val (PStr state))] s1 of
        (Inl e, s2) \<Rightarrow> (Inl e, s2)
      | (Inr (WorkflowActivity workflow_errors), s2) \<Rightarrow>
          (Inr \<lparr>wr_success = (workflow_errors = []), wr_errors = workflow_errors\<rparr>, s2)
      | (Inr _, s2) \<Rightarrow> (Inl ShapeError, s2)))"

subsection \<open>Collections\<close>

definition translate_from_ckan_collection :: "ckan_collection \<Rightarrow> Collection" where
  "translate_from_ckan_collection ckan_collection =
     \<lparr>co_institution_key = c_organization_id ckan_collection,
      co_key = c_name ckan_collection,
      co_name = c_title ckan_collection,
      co_description = c_description ckan_collection,
      co_doi_scope = c_doi_collection ckan_collection,
      co_project_keys = map i_id (c_infrastructures ckan_collection)\<rparr>"

definition translate_to_ckan_collection ::
  "string \<Rightarrow> CollectionIn \<Rightarrow> (string \<times> arg) list" where
  "translate_to_ckan_collection institution_key collection =
     [(''name'', Val (PStr (ci_key collection))),
      (''title'', Val (PStr (ci_name collection))),
      (''description'', Val (opt_str (ci_description collection))),
      (''organization_id'', Val (PStr institution_key)),
      (''doi_collection'', Val (opt_str (ci_doi_scope collection))),
      (''infrastructures'',
         Val (PList (map (\<lambda>key. PDict [(''id'', PStr key)]) (ci_project_keys collection))))]"

text \<open>
  \<^verbatim>\<open>create_collection\<close> assigns to \<^verbatim>\<open>collection.key\<close>, a field of the caller's object. The
  model returns the object as it is after the call, next to the result.
  \<^verbatim>\<open>COLLECTION_SUFFIX\<close> and \<^verbatim>\<open>PROJECT_SUFFIX\<close> are constants of \<^verbatim>\<open>odp.api.models\<close>; they are
  arguments here.
\<close>

definition create_collection ::
  "string \<Rightarrow> 'b CKANAdapter \<Rightarrow> string \<Rightarrow> CollectionIn \<Rightarrow> string \<Rightarrow> 'b world
     \<Rightarrow> (exn + Collection) \<times> CollectionIn \<times> 'b world" where
  "create_collection COLLECTION_SUFFIX self institution_key collection access_token s =
     (let collection = (if \<not> endswith (ci_key collection) COLLECTION_SUFFIX
                        then collection\<lparr>ci_key := ci_key collection @ COLLECTION_SUFFIX\<rparr>
                        else collection);
          input_dict = translate_to_ckan_collection institution_key collection
      in case call_ckan self ''metadata_collection_create'' access_token input_dict s of
           (Inl e, s1) \<Rightarrow> (Inl e, collection, s1)
         | (Inr (CollectionDict ckan_collection), s1) \<Rightarrow>
             (Inr (translate_from_ckan_collection ckan_collection), collection, s1)
         | (Inr _, s1) \<Rightarrow> (Inl ShapeError, collection, s1))"

subsection \<open>Projects\<close>

definition translate_from_ckan_project :: "ckan_project \<Rightarrow> Project" where
  "translate_from_ckan_project ckan_project =
     \<lparr>pr_key = p_name ckan_project,
      pr_name = p_title ckan_project,
      pr_description = p_description ckan_project\<rparr>"

definition translate_to_ckan_project :: "Project \<Rightarrow> (string \<times> arg) list" where
  "translate_to_ckan_project project =
     [(''name'', Val (PStr (pr_key project))),
      (''title'', Val (PStr (pr_name project))),
      (''description'', Val (opt_str (pr_description project)))]"

text \<open>\<^verbatim>\<open>input_dict['id'] = input_dict['name']\<close> on the keyword arguments.\<close>

primrec getitem :: "(string \<times> arg) list \<Rightarrow> string \<Rightarrow> arg option" where
  "getitem [] k = None"
| "getitem (p # ps) k = (if fst p = k then Some (snd p) else getitem ps k)"

primrec setarg :: "(string \<times> arg) list \<Rightarrow> string \<Rightarrow> arg \<Rightarrow> (string \<times> arg) list" where
  "setarg [] k v = [(k, v)]"
| "setarg (p # ps) k v = (if fst p = k then (k, v) # ps else p # setarg ps k v)"

definition create_or_update_project ::
  "string \<Rightarrow> 'b CKANAdapter \<Rightarrow> Project \<Rightarrow> string \<Rightarrow> 'b world
     \<Rightarrow> (exn + Project) \<times> Project \<times> 'b world" where
  "create_or_update_project PROJECT_SUFFIX self project access_token s =
     (let project = (if \<not> endswith (pr_key project) PROJECT_SUFFIX
                     then project\<lparr>pr_key := pr_key project @ PROJECT_SUFFIX\<rparr>
                     else project);
          input_dict = translate_to_ckan_project project
      in case (case call_ckan self ''infrastructure_create'' access_token input_dict s of
                 (Inr ckan_project, s1) \<Rightarrow> (Inr ckan_project, s1)
               | (Inl (HTTPException code d), s1) \<Rightarrow>
                   if code = HTTP_400_BAD_REQUEST
                      \<and> contains d ''Group name already exists in database''
                   then (case getitem input_dict ''name'' of
                           None \<Rightarrow> (Inl ShapeError, s1)
                         | Some name \<Rightarrow>
                             call_ckan self ''infrastructure_update'' access_token
                               (setarg input_dict ''id'' name) s1)
                   else (Inl (HTTPException code d), s1)
               | (Inl e, s1) \<Rightarrow> (Inl e, s1)) of
           (Inl e, s2) \<Rightarrow> (Inl e, project, s2)
         | (Inr (ProjectDict ckan_project), s2) \<Rightarrow>
             (Inr (translate_from_ckan_project ckan_project), project, s2)
         | (Inr _, s2) \<Rightarrow> (Inl ShapeError, project, s2))"

subsection \<open>Listings\<close>

record Pagination =
  offset :: int
  limit :: int

definition list_metadata_records ::
  "'b CKANAdapter \<Rightarrow> string \<Rightarrow> Pagination \<Rightarrow> string \<Rightarrow> 'b world
     \<Rightarrow> (exn + MetadataRecord list) \<times> 'b world" where
  "list_metadata_records self institution_key pagination access_token s =
     (case call_ckan self ''metadata_record_list'' access_token
             [(''owner_org'', Val (PStr institution_key)),
              (''offset'', Val (PInt (offset pagination))),
              (''limit'', Val (PInt (limit pagination))),
              (''all_fields'', Val (PBool True)),
              (''deserialize_json'', Val (PBool True))] s of
        (Inl e, s1) \<Rightarrow> (Inl e, s1)
      | (Inr (RecordList ckan_record_list), s1) \<Rightarrow>
          (Inr (map translate_from_ckan_record ckan_record_list), s1)
      | (Inr _, s1) \<Rightarrow> (Inl ShapeError, s1))"

definition list_collections ::
  "'b CKANAdapter \<Rightarrow> string \<Rightarrow> string \<Rightarrow> 'b world \<Rightarrow> (exn + Collection list) \<times> 'b world" where
  "list_collections self institution_key access_token s =
     (case call_ckan self ''metadata_collection_list'' access_token
             [(''owner_org'', Val (PStr institution_key)),
              (''all_fields'', Val (PBool True))] s of
        (Inl e, s1) \<Rightarrow> (Inl e, s1)
      | (Inr (CollectionList collection_list), s1) \<Rightarrow>
          (Inr (map translate_from_ckan_collection collection_list), s1)
      | (Inr _, s1) \<Rightarrow> (Inl ShapeError, s1))"

definition list_projects ::
  "'b CKANAdapter \<Rightarrow> string \<Rightarrow> 'b world \<Rightarrow> (exn + Project list) \<times> 'b world" where
  "list_projects self access_token s =
     (case call_ckan self ''infrastructure_list'' access_token
             [(''all_fields'', Val (PBool True))] s of
        (Inl e, s1) \<Rightarrow> (Inl e, s1)
      | (Inr (ProjectList project_list), s1) \<Rightarrow>
          (Inr (map translate_from_ckan_project project_list), s1)
      | (Inr _, s1) \<Rightarrow> (Inl ShapeError, s1))"


subsection \<open>A scripted remote, for running the adapter on concrete inputs\<close>

text \<open>
  The remote's state is the list of outcomes it will give, one per request; when the list
  is used up the connection fails.
\<close>

type_synonym script = "(ckan_exc + ckan_value) list"

definition scripted :: "request \<Rightarrow> script \<Rightarrow> (ckan_exc + ckan_value) \<times> script" where
  "scripted req script =
     (case script of
        [] \<Rightarrow> (Inl (RequestException ''connection refused''), [])
      | outcome # rest \<Rightarrow> (outcome, rest))"

definition demo_adapter :: "script CKANAdapter" where
  "demo_adapter =
     \<lparr>ckan_server_url = ''https://ckan.example.org'',
      SERVER_ENV = ''production'',
      call_action = scripted\<rparr>"

definition start :: "script \<Rightarrow> script world" where
  "start script = \<lparr>backend = script, calls = [], logged = []\<rparr>"

definition demo_record :: ckan_record where
  "demo_record =
     \<lparr>r_owner_org = ''saeon'',
      r_metadata_collection_id = ''coll-1'',
      r_metadata_standard_id = ''datacite'',
      r_metadata_json = PDict [(''title'', PStr ''Rainfall'')],
      r_id = ''rec-1'',
      r_name = ''rec-1'',
      r_doi = None,
      r_validated = False,
      r_errors = [],
      r_workflow_state_id = ''draft'',
      r_state = ''active''\<rparr>"

definition demo_input :: MetadataRecordIn where
  "demo_input =
     \<lparr>mi_collection_key = ''coll-1'',
      mi_schema_key = ''datacite'',
      mi_metadata = PDict [(''title'', PStr ''Rainfall'')],
      mi_doi = None,
      mi_auto_assign_doi = False,
      mi_terms_conditions_accepted = True,
      mi_data_agreement_accepted = True,
      mi_data_agreement_url = Some ''https://example.org/agreement'',
      mi_capture_method = ''wizard''\<rparr>"

definition tc_kwargs :: "(string \<times> arg) list" where
  "tc_kwargs = [(''id'', Val (PStr ''rec-1'')), (''key'', Val (PStr ''terms_and_conditions'')),
                (''value'', JsonDumps (PDict [(''accepted'', PBool True)]))]"

definition show_kwargs :: "(string \<times> arg) list" where
  "show_kwargs = [(''id'', Val (PStr ''rec-1'')), (''deserialize_json'', Val (PBool True))]"

definition validation_down :: script where
  "validation_down =
     [Inr (RecordDict demo_record), Inr (OtherValue PNone), Inr (OtherValue PNone),
      Inr (OtherValue PNone), Inl (RequestException ''timeout'')]"

definition validation_runs :: script where
  "validation_runs =
     [Inr (RecordDict demo_record), Inr (OtherValue PNone), Inr (OtherValue PNone),
      Inr (OtherValue PNone), Inr (RecordDict demo_record),
      Inr (ValidationActivity [\<lparr>f_errors = [(''title'', PStr ''required'')]\<rparr>])]"

definition da_kwargs :: "(string \<times> arg) list" where
  "da_kwargs = [(''id'', Val (PStr ''rec-1'')), (''key'', Val (PStr ''data_agreement'')),
                (''value'', JsonDumps (PDict [(''accepted'', PBool True),
                                              (''href'', PStr ''https://example.org/agreement'')]))]"

definition ci_kwargs :: "(string \<times> arg) list" where
  "ci_kwargs = [(''id'', Val (PStr ''rec-1'')), (''key'', Val (PStr ''capture_info'')),
                (''value'', JsonDumps (PDict [(''capture_method'', PStr ''wizard'')]))]"

definition annotations_troubled :: script where
  "annotations_troubled =
     [Inr (RecordDict (demo_record\<lparr>r_validated := True\<rparr>)),
      Inl (ValidationError ''duplicate''), Inl (NotFound ''gone''),
      Inr (OtherValue PNone), Inl (RequestException ''timeout'')]"

text \<open>
  Key normalization in the words of the specification: the suffix is appended only if the
  key does not already end with it. The adapter has no function of its own for it; both
  \<^verbatim>\<open>create_collection\<close> and \<^verbatim>\<open>create_or_update_project\<close> do it in place.
\<close>

definition normalize_key :: "string \<Rightarrow> string \<Rightarrow> string" where
  "normalize_key SUFFIX key = (if suffix SUFFIX key then key else key @ SUFFIX)"

definition demo_collection :: CollectionIn where
  "demo_collection =
     \<lparr>ci_key = ''rainfall'',
      ci_name = ''Rainfall'',
      ci_description = None,
      ci_doi_scope = None,
      ci_project_keys = [''sasdi-project'']\<rparr>"

definition demo_project :: Project where
  "demo_project =
     \<lparr>pr_key = ''sasdi'',
      pr_name = ''SASDI'',
      pr_description = Some ''Spatial data infrastructure''\<rparr>"

definition project_kwargs :: "(string \<times> arg) list" where
  "project_kwargs =
     [(''name'', Val (PStr ''sasdi-project'')), (''title'', Val (PStr ''SASDI'')),
      (''description'', Val (PStr ''Spatial data infrastructure''))]"

definition stored_project :: ckan_project where
  "stored_project =
     \<lparr>p_name = ''sasdi-project'', p_title = ''SASDI'',
      p_description = Some ''Spatial data infrastructure''\<rparr>"

text \<open>
  The merged validation errors in the words of the specification: the union of the error
  mappings of the fragments, taken in their order, a later fragment overwriting an earlier
  one on a key they share.
\<close>

definition merged_errors :: "ckan_validation_result list \<Rightarrow> (string \<rightharpoonup> pyval)" where
  "merged_errors fragments =
     foldl (\<lambda>merged fragment. merged ++ map_of (f_errors fragment)) Map.empty fragments"

definition validation_fragments :: "ckan_validation_result list" where
  "validation_fragments =
     [\<lparr>f_errors = [(''title'', PStr ''is missing''), (''doi'', PStr ''is malformed'')]\<rparr>,
      \<lparr>f_errors = [(''title'', PStr ''is too short'')]\<rparr>]"

section \<open>Properties\<close>

subsection \<open>What one action call does\<close>

lemmas http_codes =
  HTTP_400_BAD_REQUEST_def HTTP_403_FORBIDDEN_def
  HTTP_404_NOT_FOUND_def HTTP_503_SERVICE_UNAVAILABLE_def

lemmas demo_defs = scripted_def demo_adapter_def start_def sent_def

lemma call_ckan_calls:
  "calls (snd (call_ckan self action access_token kwargs s)) =
     calls s @ [sent self action access_token kwargs]"
  by (simp add: call_ckan_def Let_def split: prod.splits sum.splits ckan_exc.splits)

lemma call_ckan_logged:
  "logged (snd (call_ckan self action access_token kwargs s)) = logged s"
  by (simp add: call_ckan_def Let_def split: prod.splits sum.splits ckan_exc.splits)

lemma call_ckan_raises_http:
  assumes "call_ckan self action access_token kwargs s = (Inl e, s1)"
  shows "\<exists>code d. e = HTTPException code d \<and> d \<noteq> []"
  using assms
  by (auto simp: call_ckan_def Let_def split: prod.splits sum.splits ckan_exc.splits)

text \<open>
  \<^bold>\<open>C6.\<close> One call of \<^verbatim>\<open>_call_ckan\<close> sends one request to the remote, whatever the outcome
  (no retry), and maps what the remote raises: a transport failure to 503, a validation
  error to 400, an authorization failure to 403, not-found to 404, and any other API
  error to 400. A value the remote returns is passed on.
\<close>

theorem call_ckan_classifies:
  assumes "call_action self (sent self action access_token kwargs) (backend s) = (outcome, b')"
  shows "snd (call_ckan self action access_token kwargs s) =
           s\<lparr>backend := b', calls := calls s @ [sent self action access_token kwargs]\<rparr>
         \<and> fst (call_ckan self action access_token kwargs s) =
           (case outcome of
              Inr v \<Rightarrow> Inr v
            | Inl (RequestException e) \<Rightarrow>
                Inl (HTTPException 503 (''Error sending request to CKAN: '' @ e))
            | Inl (ValidationError e) \<Rightarrow>
                Inl (HTTPException 400 (''CKAN validation error: '' @ e))
            | Inl (NotAuthorized e) \<Rightarrow>
                Inl (HTTPException 403 (''Not authorized to access CKAN resource: '' @ e))
            | Inl (NotFound e) \<Rightarrow>
                Inl (HTTPException 404 (''CKAN resource not found: '' @ e))
            | Inl (CKANAPIError e) \<Rightarrow>
                Inl (HTTPException 400 (''CKAN error: '' @ e)))"
  using assms
  by (simp add: call_ckan_def Let_def http_codes split: sum.splits ckan_exc.splits)

theorem call_ckan_classifies_witness:
  "call_action demo_adapter (sent demo_adapter ''metadata_record_show'' ''tok'' [])
       (backend (start [Inl (NotAuthorized ''no access''), Inr (OtherValue PNone)]))
     = (Inl (NotAuthorized ''no access''), [Inr (OtherValue PNone)])
   \<and> snd (call_ckan demo_adapter ''metadata_record_show'' ''tok'' []
            (start [Inl (NotAuthorized ''no access''), Inr (OtherValue PNone)]))
     = \<lparr>backend = [Inr (OtherValue PNone)],
        calls = [sent demo_adapter ''metadata_record_show'' ''tok'' []],
        logged = []\<rparr>
   \<and> fst (call_ckan demo_adapter ''metadata_record_show'' ''tok'' []
            (start [Inl (NotAuthorized ''no access''), Inr (OtherValue PNone)]))
     = Inl (HTTPException 403 ''Not authorized to access CKAN resource: no access'')"
proof -
  have h: "call_action demo_adapter (sent demo_adapter ''metadata_record_show'' ''tok'' [])
             (backend (start [Inl (NotAuthorized ''no access''), Inr (OtherValue PNone)]))
           = (Inl (NotAuthorized ''no access''), [Inr (OtherValue PNone)])"
    by (simp add: demo_defs)
  from call_ckan_classifies [OF h] h show ?thesis
    by (simp add: start_def)
qed

subsection \<open>Translating a record\<close>

text \<open>
  \<^bold>\<open>C8.\<close> The translated record has a \<^verbatim>\<open>pid\<close> exactly when CKAN's \<^verbatim>\<open>name\<close> differs from
  CKAN's \<^verbatim>\<open>id\<close>, and then the \<^verbatim>\<open>pid\<close> is that name; when they are equal the \<^verbatim>\<open>pid\<close> is
  absent.
\<close>

theorem translate_pid_iff_alias:
  "(mr_pid (translate_from_ckan_record ckan_record) \<noteq> None
      \<longleftrightarrow> r_name ckan_record \<noteq> r_id ckan_record)
   \<and> (r_name ckan_record \<noteq> r_id ckan_record
      \<longrightarrow> mr_pid (translate_from_ckan_record ckan_record) = Some (r_name ckan_record))
   \<and> (r_name ckan_record = r_id ckan_record
      \<longrightarrow> mr_pid (translate_from_ckan_record ckan_record) = None)"
  by (simp add: translate_from_ckan_record_def)

theorem translate_pid_iff_alias_witness:
  "r_name (demo_record\<lparr>r_name := ''rainfall-2019''\<rparr>) \<noteq> r_id (demo_record\<lparr>r_name := ''rainfall-2019''\<rparr>)
   \<and> mr_pid (translate_from_ckan_record (demo_record\<lparr>r_name := ''rainfall-2019''\<rparr>))
       = Some ''rainfall-2019''
   \<and> r_name demo_record = r_id demo_record
   \<and> mr_pid (translate_from_ckan_record demo_record) = None"
  using translate_pid_iff_alias [of "demo_record\<lparr>r_name := ''rainfall-2019''\<rparr>"]
        translate_pid_iff_alias [of demo_record]
  by (simp add: demo_record_def)

subsection \<open>Annotations\<close>

lemmas run_defs = call_ckan_def Let_def http_codes demo_defs log_def

lemma annotate_never_raises:
  "fst (annotate self record_id access_token key value s) = Inr ()"
  unfolding annotate_def Let_def
  by (auto split: prod.splits sum.splits exn.splits option.splits dest: call_ckan_raises_http)

lemma annotate_created:
  assumes "call_ckan self ''metadata_record_workflow_annotation_create'' access_token
             [(''id'', Val (PStr record_id)), (''key'', Val (PStr key)), (''value'', JsonDumps value)] s
           = (Inr v, s1)"
  shows "annotate self record_id access_token key value s = (Inr (), s1)"
  using assms by (simp add: annotate_def)

lemma annotate_create_failed:
  assumes "call_ckan self ''metadata_record_workflow_annotation_create'' access_token
             [(''id'', Val (PStr record_id)), (''key'', Val (PStr key)), (''value'', JsonDumps value)] s
           = (Inl (HTTPException code d), s1)"
    and "code \<noteq> 400"
  shows "annotate self record_id access_token key value s
           = (Inr (), log ERROR (annotation_error_text key record_id d) s1)"
  using assms call_ckan_raises_http[OF assms(1)] by (simp add: annotate_def)

lemma annotate_updated:
  assumes "call_ckan self ''metadata_record_workflow_annotation_create'' access_token
             [(''id'', Val (PStr record_id)), (''key'', Val (PStr key)), (''value'', JsonDumps value)] s
           = (Inl (HTTPException 400 d), s1)"
    and "call_ckan self ''metadata_record_workflow_annotation_update'' access_token
             [(''id'', Val (PStr record_id)), (''key'', Val (PStr key)), (''value'', JsonDumps value)] s1
           = (Inr v, s2)"
  shows "annotate self record_id access_token key value s = (Inr (), s2)"
  using assms by (simp add: annotate_def)

lemma annotate_update_failed:
  assumes "call_ckan self ''metadata_record_workflow_annotation_create'' access_token
             [(''id'', Val (PStr record_id)), (''key'', Val (PStr key)), (''value'', JsonDumps value)] s
           = (Inl (HTTPException 400 d), s1)"
    and "call_ckan self ''metadata_record_workflow_annotation_update'' access_token
             [(''id'', Val (PStr record_id)), (''key'', Val (PStr key)), (''value'', JsonDumps value)] s1
           = (Inl (HTTPException code2 d2), s2)"
  shows "annotate self record_id access_token key value s
           = (Inr (), log ERROR (annotation_error_text key record_id d2) s2)"
  using assms call_ckan_raises_http[OF assms(2)] by (simp add: annotate_def)

lemma annotate_returns:
  "annotate self record_id access_token key value s =
     (Inr (), snd (annotate self record_id access_token key value s))"
  using annotate_never_raises [of self record_id access_token key "value" s]
  by (cases "annotate self record_id access_token key value s") simp

lemma annotate_metadata_record_order:
  "annotate_metadata_record self record_id metadata_record access_token s =
     (Inr (),
      snd (annotate self record_id access_token ''capture_info''
            (PDict [(''capture_method'', PStr (mi_capture_method metadata_record))])
       (snd (annotate self record_id access_token ''data_agreement''
            (PDict [(''accepted'', PBool (mi_data_agreement_accepted metadata_record)),
                    (''href'', opt_str (mi_data_agreement_url metadata_record))])
       (snd (annotate self record_id access_token ''terms_and_conditions''
            (PDict [(''accepted'', PBool (mi_terms_conditions_accepted metadata_record))]) s))))))"
proof -
  let ?a1 = "annotate self record_id access_token ''terms_and_conditions''
               (PDict [(''accepted'', PBool (mi_terms_conditions_accepted metadata_record))]) s"
  let ?a2 = "annotate self record_id access_token ''data_agreement''
               (PDict [(''accepted'', PBool (mi_data_agreement_accepted metadata_record)),
                       (''href'', opt_str (mi_data_agreement_url metadata_record))]) (snd ?a1)"
  let ?a3 = "annotate self record_id access_token ''capture_info''
               (PDict [(''capture_method'', PStr (mi_capture_method metadata_record))]) (snd ?a2)"
  have 1: "?a1 = (Inr (), snd ?a1)" by (rule annotate_returns)
  have 2: "?a2 = (Inr (), snd ?a2)" by (rule annotate_returns)
  have 3: "?a3 = (Inr (), snd ?a3)" by (rule annotate_returns)
  show ?thesis
    unfolding annotate_metadata_record_def
    by (subst 1, simp, subst 2, simp, subst 3, simp)
qed

lemma annotate_metadata_record_never_raises:
  "fst (annotate_metadata_record self record_id metadata_record access_token s) = Inr ()"
  by (subst annotate_metadata_record_order) simp


lemma annotate_contract:
  "annotate_metadata_record self record_id metadata_record access_token s =
     (Inr (),
      snd (annotate self record_id access_token ''capture_info''
            (PDict [(''capture_method'', PStr (mi_capture_method metadata_record))])
       (snd (annotate self record_id access_token ''data_agreement''
            (PDict [(''accepted'', PBool (mi_data_agreement_accepted metadata_record)),
                    (''href'', opt_str (mi_data_agreement_url metadata_record))])
       (snd (annotate self record_id access_token ''terms_and_conditions''
            (PDict [(''accepted'', PBool (mi_terms_conditions_accepted metadata_record))]) s))))))
   \<and> fst (annotate self record_id access_token key value s0) = Inr ()
   \<and> (call_ckan self ''metadata_record_workflow_annotation_create'' access_token
          [(''id'', Val (PStr record_id)), (''key'', Val (PStr key)),
           (''value'', JsonDumps value)] s0 = (Inr v, s1)
        \<longrightarrow> annotate self record_id access_token key value s0 = (Inr (), s1))
   \<and> (call_ckan self ''metadata_record_workflow_annotation_create'' access_token
          [(''id'', Val (PStr record_id)), (''key'', Val (PStr key)),
           (''value'', JsonDumps value)] s0 = (Inl (HTTPException code d), s1)
        \<and> code \<noteq> 400
        \<longrightarrow> annotate self record_id access_token key value s0
              = (Inr (), log ERROR (annotation_error_text key record_id d) s1))
   \<and> (call_ckan self ''metadata_record_workflow_annotation_create'' access_token
          [(''id'', Val (PStr record_id)), (''key'', Val (PStr key)),
           (''value'', JsonDumps value)] s0 = (Inl (HTTPException 400 d), s1)
        \<and> call_ckan self ''metadata_record_workflow_annotation_update'' access_token
          [(''id'', Val (PStr record_id)), (''key'', Val (PStr key)),
           (''value'', JsonDumps value)] s1 = (Inr v', s2)
        \<longrightarrow> annotate self record_id access_token key value s0 = (Inr (), s2))
   \<and> (call_ckan self ''metadata_record_workflow_annotation_create'' access_token
          [(''id'', Val (PStr record_id)), (''key'', Val (PStr key)),
           (''value'', JsonDumps value)] s0 = (Inl (HTTPException 400 d), s1)
        \<and> call_ckan self ''metadata_record_workflow_annotation_update'' access_token
          [(''id'', Val (PStr record_id)), (''key'', Val (PStr key)),
           (''value'', JsonDumps value)] s1 = (Inl (HTTPException code2 d2), s2)
        \<longrightarrow> annotate self record_id access_token key value s0
              = (Inr (), log ERROR (annotation_error_text key record_id d2) s2))"
  using annotate_metadata_record_order [of self record_id metadata_record access_token s]
        annotate_never_raises [of self record_id access_token key "value" s0]
        annotate_created [of self access_token record_id key "value" s0 v s1]
        annotate_create_failed [of self access_token record_id key "value" s0 code d s1]
        annotate_updated [of self access_token record_id key "value" s0 d s1 v' s2]
        annotate_update_failed [of self access_token record_id key "value" s0 d s1 code2 d2 s2]
  by blast

subsection \<open>The scoped existence check\<close>

lemma get_show_failed:
  assumes "call_ckan self ''metadata_record_show'' access_token
             [(''id'', Val (PStr record_id)), (''deserialize_json'', Val (PBool True))] s
           = (Inl e, s1)"
  shows "get_metadata_record self institution_key record_id access_token s = (Inl e, s1)"
  using assms by (simp add: get_metadata_record_def)

lemma get_show_record:
  assumes "call_ckan self ''metadata_record_show'' access_token
             [(''id'', Val (PStr record_id)), (''deserialize_json'', Val (PBool True))] s
           = (Inr (RecordDict ckan_record), s1)"
  shows "get_metadata_record self institution_key record_id access_token s =
           (if r_state ckan_record = ''active'' \<and> r_owner_org ckan_record = institution_key
            then (Inr (translate_from_ckan_record ckan_record), s1)
            else (Inl (HTTPException 404 ''CKAN resource not found''), s1))"
  using assms by (simp add: get_metadata_record_def http_codes)

lemma get_state:
  "snd (get_metadata_record self institution_key record_id access_token s) =
     snd (call_ckan self ''metadata_record_show'' access_token
            [(''id'', Val (PStr record_id)), (''deserialize_json'', Val (PBool True))] s)"
  by (simp add: get_metadata_record_def split: prod.splits sum.splits ckan_value.splits)

lemma get_calls:
  "calls (snd (get_metadata_record self institution_key record_id access_token s)) =
     calls s @ [sent self ''metadata_record_show'' access_token
                  [(''id'', Val (PStr record_id)), (''deserialize_json'', Val (PBool True))]]"
  by (simp add: get_state call_ckan_calls)

lemma get_returns_only_owned_active:
  assumes "get_metadata_record self institution_key record_id access_token s = (Inr m, s1)"
  shows "\<exists>ckan_record.
           call_ckan self ''metadata_record_show'' access_token
             [(''id'', Val (PStr record_id)), (''deserialize_json'', Val (PBool True))] s
             = (Inr (RecordDict ckan_record), s1)
           \<and> r_state ckan_record = ''active'' \<and> r_owner_org ckan_record = institution_key
           \<and> m = translate_from_ckan_record ckan_record"
  using assms
  by (auto simp: get_metadata_record_def split: prod.splits sum.splits ckan_value.splits if_splits)

lemma update_after_failed_check:
  assumes "get_metadata_record self institution_key record_id access_token s = (Inl e, s1)"
  shows "update_metadata_record self institution_key record_id metadata_record access_token s
           = (Inl e, s1)"
  using assms by (simp add: update_metadata_record_def)

lemma delete_after_failed_check:
  assumes "get_metadata_record self institution_key record_id access_token s = (Inl e, s1)"
  shows "delete_metadata_record self institution_key record_id access_token s = (Inl e, s1)"
  using assms by (simp add: delete_metadata_record_def)

lemma validate_after_failed_check:
  assumes "get_metadata_record self institution_key record_id access_token s = (Inl e, s1)"
  shows "validate_metadata_record self institution_key record_id access_token s = (Inl e, s1)"
  using assms by (simp add: validate_metadata_record_def)

lemma change_state_after_failed_check:
  assumes "get_metadata_record self institution_key record_id access_token s = (Inl e, s1)"
  shows "change_state_of_metadata_record self institution_key record_id state access_token s
           = (Inl e, s1)"
  using assms by (simp add: change_state_of_metadata_record_def)

lemma call_ckan_callsD:
  assumes "call_ckan self action access_token kwargs s = (r, s1)"
  shows "calls s1 = calls s @ [sent self action access_token kwargs]"
  using call_ckan_calls [of self action access_token kwargs s] assms by simp

lemma annotate_extends:
  "prefix (calls s) (calls (snd (annotate self record_id access_token key value s)))"
  unfolding annotate_def Let_def
  by (auto split: prod.splits sum.splits exn.splits option.splits simp: log_def
           dest!: call_ckan_callsD)

lemma annotate_metadata_record_extends:
  "prefix (calls s) (calls (snd (annotate_metadata_record self record_id metadata_record access_token s)))"
  by (subst annotate_metadata_record_order, simp)
     (meson annotate_extends prefix_order.trans)

lemma get_callsD:
  assumes "get_metadata_record self institution_key record_id access_token s = (r, s1)"
  shows "calls s1 = calls s @ [sent self ''metadata_record_show'' access_token
                  [(''id'', Val (PStr record_id)), (''deserialize_json'', Val (PBool True))]]"
  using get_calls [of self institution_key record_id access_token s] assms by simp

lemma validate_checks_first:
  "prefix (calls s @ [sent self ''metadata_record_show'' access_token
                  [(''id'', Val (PStr record_id)), (''deserialize_json'', Val (PBool True))]])
     (calls (snd (validate_metadata_record self institution_key record_id access_token s)))"
  unfolding validate_metadata_record_def Let_def
  by (auto split: prod.splits sum.splits ckan_value.splits dest!: call_ckan_callsD get_callsD)

lemma delete_checks_first:
  "prefix (calls s @ [sent self ''metadata_record_show'' access_token
                  [(''id'', Val (PStr record_id)), (''deserialize_json'', Val (PBool True))]])
     (calls (snd (delete_metadata_record self institution_key record_id access_token s)))"
  unfolding delete_metadata_record_def
  by (auto split: prod.splits sum.splits ckan_value.splits dest!: call_ckan_callsD get_callsD)

lemma change_state_checks_first:
  "prefix (calls s @ [sent self ''metadata_record_show'' access_token
                  [(''id'', Val (PStr record_id)), (''deserialize_json'', Val (PBool True))]])
     (calls (snd (change_state_of_metadata_record self institution_key record_id state access_token s)))"
  unfolding change_state_of_metadata_record_def
  by (auto split: prod.splits sum.splits ckan_value.splits dest!: call_ckan_callsD get_callsD)

lemma validate_extends:
  "prefix (calls s) (calls (snd (validate_metadata_record self institution_key record_id access_token s)))"
  by (rule append_prefixD) (rule validate_checks_first)


lemma annotate_metadata_record_extendsD:
  assumes "annotate_metadata_record self record_id metadata_record access_token s = (r, s1)"
  shows "\<exists>zs. calls s1 = calls s @ zs"
  using annotate_metadata_record_extends [of s self record_id metadata_record access_token] assms
  by (simp add: prefix_def)

lemma validate_extendsD:
  assumes "validate_metadata_record self institution_key record_id access_token s = (r, s1)"
  shows "\<exists>zs. calls s1 = calls s @ zs"
  using validate_extends [of s self institution_key record_id access_token] assms
  by (simp add: prefix_def)

lemma update_checks_first:
  "prefix (calls s @ [sent self ''metadata_record_show'' access_token
                  [(''id'', Val (PStr record_id)), (''deserialize_json'', Val (PBool True))]])
     (calls (snd (update_metadata_record self institution_key record_id metadata_record
                    access_token s)))"
  unfolding update_metadata_record_def Let_def
  by (auto split: prod.splits sum.splits ckan_value.splits exn.splits simp: prefix_def log_def
           dest!: call_ckan_callsD get_callsD annotate_metadata_record_extendsD validate_extendsD)


text \<open>
  \<^bold>\<open>C4.\<close> Update, delete, validate and the workflow state transition each begin with the
  request of \<^verbatim>\<open>get_metadata_record\<close> for the caller's institution: it is the first
  request they send. When that check fails, the operation fails with the check's error
  in the state the check left, in which the \<^verbatim>\<open>metadata_record_show\<close> request is the only
  one sent: no update, delete, validate or transition action is called.
\<close>

theorem scoped_check_guards_mutations:
  "prefix (calls s @ [sent self ''metadata_record_show'' access_token
                  [(''id'', Val (PStr record_id)), (''deserialize_json'', Val (PBool True))]])
     (calls (snd (update_metadata_record self institution_key record_id metadata_record
                    access_token s)))
   \<and> prefix (calls s @ [sent self ''metadata_record_show'' access_token
                  [(''id'', Val (PStr record_id)), (''deserialize_json'', Val (PBool True))]])
     (calls (snd (delete_metadata_record self institution_key record_id access_token s)))
   \<and> prefix (calls s @ [sent self ''metadata_record_show'' access_token
                  [(''id'', Val (PStr record_id)), (''deserialize_json'', Val (PBool True))]])
     (calls (snd (validate_metadata_record self institution_key record_id access_token s)))
   \<and> prefix (calls s @ [sent self ''metadata_record_show'' access_token
                  [(''id'', Val (PStr record_id)), (''deserialize_json'', Val (PBool True))]])
     (calls (snd (change_state_of_metadata_record self institution_key record_id state
                    access_token s)))
   \<and> (get_metadata_record self institution_key record_id access_token s = (Inl e, s1)
        \<longrightarrow> update_metadata_record self institution_key record_id metadata_record
              access_token s = (Inl e, s1)
          \<and> delete_metadata_record self institution_key record_id access_token s = (Inl e, s1)
          \<and> validate_metadata_record self institution_key record_id access_token s
              = (Inl e, s1)
          \<and> change_state_of_metadata_record self institution_key record_id state
              access_token s = (Inl e, s1)
          \<and> calls s1 = calls s @ [sent self ''metadata_record_show'' access_token
                  [(''id'', Val (PStr record_id)), (''deserialize_json'', Val (PBool True))]])"
  using update_checks_first [of s self access_token record_id institution_key metadata_record]
        delete_checks_first [of s self access_token record_id institution_key]
        validate_checks_first [of s self access_token record_id institution_key]
        change_state_checks_first [of s self access_token record_id institution_key state]
        update_after_failed_check [of self institution_key record_id access_token s e s1 metadata_record]
        delete_after_failed_check [of self institution_key record_id access_token s e s1]
        validate_after_failed_check [of self institution_key record_id access_token s e s1]
        change_state_after_failed_check [of self institution_key record_id access_token s e s1 state]
        get_callsD [of self institution_key record_id access_token s "Inl e" s1]
  by blast

theorem scoped_check_guards_mutations_witness:
  "get_metadata_record demo_adapter ''other-institution'' ''rec-1'' ''tok''
       (start [Inr (RecordDict demo_record), Inr (OtherValue PNone)])
     = (Inl (HTTPException 404 ''CKAN resource not found''),
        \<lparr>backend = [Inr (OtherValue PNone)],
         calls = [sent demo_adapter ''metadata_record_show'' ''tok'' show_kwargs],
         logged = []\<rparr>)
   \<and> update_metadata_record demo_adapter ''other-institution'' ''rec-1'' demo_input ''tok''
       (start [Inr (RecordDict demo_record), Inr (OtherValue PNone)])
     = (Inl (HTTPException 404 ''CKAN resource not found''),
        \<lparr>backend = [Inr (OtherValue PNone)],
         calls = [sent demo_adapter ''metadata_record_show'' ''tok'' show_kwargs],
         logged = []\<rparr>)
   \<and> delete_metadata_record demo_adapter ''other-institution'' ''rec-1'' ''tok''
       (start [Inr (RecordDict demo_record), Inr (OtherValue PNone)])
     = (Inl (HTTPException 404 ''CKAN resource not found''),
        \<lparr>backend = [Inr (OtherValue PNone)],
         calls = [sent demo_adapter ''metadata_record_show'' ''tok'' show_kwargs],
         logged = []\<rparr>)
   \<and> validate_metadata_record demo_adapter ''other-institution'' ''rec-1'' ''tok''
       (start [Inr (RecordDict demo_record), Inr (OtherValue PNone)])
     = (Inl (HTTPException 404 ''CKAN resource not found''),
        \<lparr>backend = [Inr (OtherValue PNone)],
         calls = [sent demo_adapter ''metadata_record_show'' ''tok'' show_kwargs],
         logged = []\<rparr>)
   \<and> change_state_of_metadata_record demo_adapter ''other-institution'' ''rec-1''
       ''published'' ''tok'' (start [Inr (RecordDict demo_record), Inr (OtherValue PNone)])
     = (Inl (HTTPException 404 ''CKAN resource not found''),
        \<lparr>backend = [Inr (OtherValue PNone)],
         calls = [sent demo_adapter ''metadata_record_show'' ''tok'' show_kwargs],
         logged = []\<rparr>)"
proof -
  let ?s = "start [Inr (RecordDict demo_record), Inr (OtherValue PNone)]"
  let ?s1 = "\<lparr>backend = [Inr (OtherValue PNone)],
         calls = [sent demo_adapter ''metadata_record_show'' ''tok'' show_kwargs],
         logged = []\<rparr>"
  have h: "get_metadata_record demo_adapter ''other-institution'' ''rec-1'' ''tok'' ?s
             = (Inl (HTTPException 404 ''CKAN resource not found''), ?s1)"
    by (simp add: get_metadata_record_def run_defs demo_record_def show_kwargs_def)
  from scoped_check_guards_mutations
         [of ?s demo_adapter "''tok''" "''rec-1''" "''other-institution''" demo_input
             "''published''" "HTTPException 404 ''CKAN resource not found''" ?s1] h
  show ?thesis by blast
qed

subsection \<open>Getting a record\<close>

lemma get_remote_not_found:
  assumes "call_action self
             (sent self ''metadata_record_show'' access_token
                [(''id'', Val (PStr record_id)), (''deserialize_json'', Val (PBool True))])
             (backend s) = (Inl (NotFound msg), b')"
  shows "fst (get_metadata_record self institution_key record_id access_token s)
           = Inl (HTTPException 404 (''CKAN resource not found: '' @ msg))"
  using assms by (simp add: get_metadata_record_def call_ckan_def Let_def http_codes)

text \<open>
  \<^bold>\<open>C5.\<close> The specification wants a record that is not active, or that belongs to
  another institution, reported as not found, never as forbidden, and in no way that tells
  it from a record CKAN does not have. The code answers both causes with status 404 and
  the detail
  \<^verbatim>\<open>CKAN resource not found\<close>, and returns a record only when it is active and owned by
  the institution. But for a record that CKAN itself reports as not found, \<^verbatim>\<open>_call_ckan\<close>
  appends CKAN's message to the same stem: the detail is \<^verbatim>\<open>CKAN resource not found: \<close>
  followed by the message, and so it is never the detail of the scoped check. Status and
  stem agree, as the specification wants; the appended message gives the difference away.
\<close>

theorem get_hides_foreign_and_inactive:
  "(call_ckan self ''metadata_record_show'' access_token
        [(''id'', Val (PStr record_id)), (''deserialize_json'', Val (PBool True))] s
      = (Inr (RecordDict ckan_record), s1)
      \<and> (r_state ckan_record \<noteq> ''active'' \<or> r_owner_org ckan_record \<noteq> institution_key)
    \<longrightarrow> get_metadata_record self institution_key record_id access_token s
          = (Inl (HTTPException 404 ''CKAN resource not found''), s1))
   \<and> (call_ckan self ''metadata_record_show'' access_token
        [(''id'', Val (PStr record_id)), (''deserialize_json'', Val (PBool True))] s
      = (Inr (RecordDict ckan_record), s1)
      \<and> r_state ckan_record = ''active'' \<and> r_owner_org ckan_record = institution_key
    \<longrightarrow> get_metadata_record self institution_key record_id access_token s
          = (Inr (translate_from_ckan_record ckan_record), s1))
   \<and> (get_metadata_record self institution_key record_id access_token s = (Inr m, s2)
    \<longrightarrow> (\<exists>r. call_ckan self ''metadata_record_show'' access_token
               [(''id'', Val (PStr record_id)), (''deserialize_json'', Val (PBool True))] s
               = (Inr (RecordDict r), s2)
             \<and> r_state r = ''active'' \<and> r_owner_org r = institution_key
             \<and> m = translate_from_ckan_record r))
   \<and> (call_action self
         (sent self ''metadata_record_show'' access_token
            [(''id'', Val (PStr record_id)), (''deserialize_json'', Val (PBool True))])
         (backend s) = (Inl (NotFound msg), b')
    \<longrightarrow> fst (get_metadata_record self institution_key record_id access_token s)
          = Inl (HTTPException 404 (''CKAN resource not found: '' @ msg))
        \<and> fst (get_metadata_record self institution_key record_id access_token s)
          \<noteq> Inl (HTTPException 404 ''CKAN resource not found''))"
  using get_show_record [of self access_token record_id s ckan_record s1 institution_key]
        get_returns_only_owned_active [of self institution_key record_id access_token s m s2]
        get_remote_not_found [of self access_token record_id s msg b' institution_key]
  by auto

theorem get_hides_foreign_and_inactive_witness:
  "call_ckan demo_adapter ''metadata_record_show'' ''tok'' show_kwargs
       (start [Inr (RecordDict (demo_record\<lparr>r_state := ''deleted''\<rparr>))])
     = (Inr (RecordDict (demo_record\<lparr>r_state := ''deleted''\<rparr>)),
        \<lparr>backend = [],
         calls = [sent demo_adapter ''metadata_record_show'' ''tok'' show_kwargs],
         logged = []\<rparr>)
   \<and> r_state (demo_record\<lparr>r_state := ''deleted''\<rparr>) \<noteq> ''active''
   \<and> get_metadata_record demo_adapter ''saeon'' ''rec-1'' ''tok''
       (start [Inr (RecordDict (demo_record\<lparr>r_state := ''deleted''\<rparr>))])
     = (Inl (HTTPException 404 ''CKAN resource not found''),
        \<lparr>backend = [],
         calls = [sent demo_adapter ''metadata_record_show'' ''tok'' show_kwargs],
         logged = []\<rparr>)
   \<and> call_ckan demo_adapter ''metadata_record_show'' ''tok'' show_kwargs
       (start [Inr (RecordDict demo_record)])
     = (Inr (RecordDict demo_record),
        \<lparr>backend = [],
         calls = [sent demo_adapter ''metadata_record_show'' ''tok'' show_kwargs],
         logged = []\<rparr>)
   \<and> r_state demo_record = ''active'' \<and> r_owner_org demo_record = ''saeon''
   \<and> get_metadata_record demo_adapter ''saeon'' ''rec-1'' ''tok''
       (start [Inr (RecordDict demo_record)])
     = (Inr (translate_from_ckan_record demo_record),
        \<lparr>backend = [],
         calls = [sent demo_adapter ''metadata_record_show'' ''tok'' show_kwargs],
         logged = []\<rparr>)
   \<and> call_action demo_adapter (sent demo_adapter ''metadata_record_show'' ''tok'' show_kwargs)
        (backend (start [Inl (NotFound ''Not found'')])) = (Inl (NotFound ''Not found''), [])
   \<and> fst (get_metadata_record demo_adapter ''saeon'' ''rec-1'' ''tok''
            (start [Inl (NotFound ''Not found'')]))
     = Inl (HTTPException 404 ''CKAN resource not found: Not found'')"
proof -
  let ?s1 = "\<lparr>backend = [],
         calls = [sent demo_adapter ''metadata_record_show'' ''tok'' show_kwargs],
         logged = []\<rparr> :: script world"
  have h1: "call_ckan demo_adapter ''metadata_record_show'' ''tok'' show_kwargs
              (start [Inr (RecordDict (demo_record\<lparr>r_state := ''deleted''\<rparr>))])
            = (Inr (RecordDict (demo_record\<lparr>r_state := ''deleted''\<rparr>)), ?s1)"
    by (simp add: run_defs)
  have h2: "r_state (demo_record\<lparr>r_state := ''deleted''\<rparr>) \<noteq> ''active''"
    by simp
  have h3: "call_ckan demo_adapter ''metadata_record_show'' ''tok'' show_kwargs
              (start [Inr (RecordDict demo_record)]) = (Inr (RecordDict demo_record), ?s1)"
    by (simp add: run_defs)
  have h4: "r_state demo_record = ''active'' \<and> r_owner_org demo_record = ''saeon''"
    by (simp add: demo_record_def)
  have h5: "call_action demo_adapter
              (sent demo_adapter ''metadata_record_show'' ''tok'' show_kwargs)
              (backend (start [Inl (NotFound ''Not found'')])) = (Inl (NotFound ''Not found''), [])"
    by (simp add: demo_defs)
  from get_hides_foreign_and_inactive
         [of demo_adapter "''tok''" "''rec-1''" _ "demo_record\<lparr>r_state := ''deleted''\<rparr>" ?s1
             "''saeon''"] h1 h2
  have c1: "get_metadata_record demo_adapter ''saeon'' ''rec-1'' ''tok''
              (start [Inr (RecordDict (demo_record\<lparr>r_state := ''deleted''\<rparr>))])
            = (Inl (HTTPException 404 ''CKAN resource not found''), ?s1)"
    unfolding show_kwargs_def by blast
  from get_hides_foreign_and_inactive
         [of demo_adapter "''tok''" "''rec-1''" _ demo_record ?s1 "''saeon''"] h3 h4
  have c2: "get_metadata_record demo_adapter ''saeon'' ''rec-1'' ''tok''
              (start [Inr (RecordDict demo_record)])
            = (Inr (translate_from_ckan_record demo_record), ?s1)"
    unfolding show_kwargs_def by blast
  from get_hides_foreign_and_inactive
         [of demo_adapter "''tok''" "''rec-1''" "start [Inl (NotFound ''Not found'')]"
             _ _ "''saeon''" _ _ "''Not found''" "[]"] h5
  have c3: "fst (get_metadata_record demo_adapter ''saeon'' ''rec-1'' ''tok''
                   (start [Inl (NotFound ''Not found'')]))
            = Inl (HTTPException 404 ''CKAN resource not found: Not found'')"
    unfolding show_kwargs_def by simp
  from h1 h2 h3 h4 h5 c1 c2 c3 show ?thesis by simp
qed

text \<open>
  The failing input: institution \<^verbatim>\<open>other-institution\<close> asks for \<^verbatim>\<open>rec-1\<close>, once when CKAN
  returns the active record of \<^verbatim>\<open>saeon\<close> and once when CKAN raises \<^verbatim>\<open>NotFound\<close>. Both calls
  fail with status 404, with different details.
\<close>

theorem get_mismatch_differs_from_absence:
  "fst (get_metadata_record demo_adapter ''other-institution'' ''rec-1'' ''tok''
          (start [Inr (RecordDict demo_record)]))
     = Inl (HTTPException 404 ''CKAN resource not found'')
   \<and> fst (get_metadata_record demo_adapter ''other-institution'' ''rec-1'' ''tok''
          (start [Inl (NotFound ''Not found'')]))
     = Inl (HTTPException 404 ''CKAN resource not found: Not found'')
   \<and> fst (get_metadata_record demo_adapter ''other-institution'' ''rec-1'' ''tok''
          (start [Inr (RecordDict demo_record)]))
     \<noteq> fst (get_metadata_record demo_adapter ''other-institution'' ''rec-1'' ''tok''
          (start [Inl (NotFound ''Not found'')]))"
  by (simp add: get_metadata_record_def run_defs demo_record_def)

subsection \<open>Validation after a create or an update\<close>

lemmas op_defs =
  get_metadata_record_def validate_metadata_record_def annotate_metadata_record_def
  annotate_def translate_to_ckan_record_def dict_update_def opt_str_def

lemma translate_keeps_validation:
  "mr_validated (translate_from_ckan_record ckan_record) = r_validated ckan_record
   \<and> mr_errors (translate_from_ckan_record ckan_record) = r_errors ckan_record"
  by (simp add: translate_from_ckan_record_def)

lemma create_validation_swallowed:
  assumes "call_ckan self ''metadata_record_create'' access_token
             ((''deserialize_json'', Val (PBool True))
                # translate_to_ckan_record institution_key metadata_record) s
           = (Inr (RecordDict ckan_record), s1)"
    and "annotate_metadata_record self (r_id ckan_record) metadata_record access_token s1
           = (Inr (), s2)"
    and "\<not> r_validated ckan_record"
    and "validate_metadata_record self institution_key (r_id ckan_record) access_token s2
           = (Inl (HTTPException code d), s3)"
  shows "create_or_update_metadata_record self institution_key metadata_record access_token s
           = (Inr (translate_from_ckan_record ckan_record),
              log WARNING (validation_warning_text (r_id ckan_record) d) s3)"
  using assms by (simp add: create_or_update_metadata_record_def Let_def)

lemma create_validation_merged:
  assumes "call_ckan self ''metadata_record_create'' access_token
             ((''deserialize_json'', Val (PBool True))
                # translate_to_ckan_record institution_key metadata_record) s
           = (Inr (RecordDict ckan_record), s1)"
    and "annotate_metadata_record self (r_id ckan_record) metadata_record access_token s1
           = (Inr (), s2)"
    and "\<not> r_validated ckan_record"
    and "validate_metadata_record self institution_key (r_id ckan_record) access_token s2
           = (Inr validaton_result, s3)"
  shows "create_or_update_metadata_record self institution_key metadata_record access_token s
           = (Inr (translate_from_ckan_record
                     (ckan_record\<lparr>r_validated := True,
                        r_errors := vr_errors validaton_result\<rparr>)), s3)"
  using assms by (simp add: create_or_update_metadata_record_def Let_def)

lemma create_validation_invoked:
  assumes "call_ckan self ''metadata_record_create'' access_token
             ((''deserialize_json'', Val (PBool True))
                # translate_to_ckan_record institution_key metadata_record) s
           = (Inr (RecordDict ckan_record), s1)"
    and "annotate_metadata_record self (r_id ckan_record) metadata_record access_token s1
           = (Inr (), s2)"
    and "\<not> r_validated ckan_record"
  shows "prefix (calls s2 @ [sent self ''metadata_record_show'' access_token
                   [(''id'', Val (PStr (r_id ckan_record))),
                    (''deserialize_json'', Val (PBool True))]])
           (calls (snd (create_or_update_metadata_record self institution_key metadata_record
                          access_token s)))"
  using assms
        validate_checks_first [of s2 self access_token "r_id ckan_record" institution_key]
  by (auto simp: create_or_update_metadata_record_def Let_def log_def
           split: prod.splits sum.splits exn.splits)

lemma update_validation_swallowed:
  assumes "get_metadata_record self institution_key record_id access_token s = (Inr found, s0)"
    and "call_ckan self ''metadata_record_update'' access_token
             ((''id'', Val (PStr record_id)) # (''deserialize_json'', Val (PBool True))
                # translate_to_ckan_record institution_key metadata_record) s0
           = (Inr (RecordDict ckan_record), s1)"
    and "annotate_metadata_record self record_id metadata_record access_token s1 = (Inr (), s2)"
    and "\<not> r_validated ckan_record"
    and "validate_metadata_record self institution_key record_id access_token s2
           = (Inl (HTTPException code d), s3)"
  shows "update_metadata_record self institution_key record_id metadata_record access_token s
           = (Inr (translate_from_ckan_record ckan_record),
              log WARNING (validation_warning_text record_id d) s3)"
  using assms by (simp add: update_metadata_record_def Let_def)

lemma update_validation_merged:
  assumes "get_metadata_record self institution_key record_id access_token s = (Inr found, s0)"
    and "call_ckan self ''metadata_record_update'' access_token
             ((''id'', Val (PStr record_id)) # (''deserialize_json'', Val (PBool True))
                # translate_to_ckan_record institution_key metadata_record) s0
           = (Inr (RecordDict ckan_record), s1)"
    and "annotate_metadata_record self record_id metadata_record access_token s1 = (Inr (), s2)"
    and "\<not> r_validated ckan_record"
    and "validate_metadata_record self institution_key record_id access_token s2
           = (Inr validaton_result, s3)"
  shows "update_metadata_record self institution_key record_id metadata_record access_token s
           = (Inr (translate_from_ckan_record
                     (ckan_record\<lparr>r_validated := True,
                        r_errors := vr_errors validaton_result\<rparr>)), s3)"
  using assms by (simp add: update_metadata_record_def Let_def)

lemma update_validation_invoked:
  assumes "get_metadata_record self institution_key record_id access_token s = (Inr found, s0)"
    and "call_ckan self ''metadata_record_update'' access_token
             ((''id'', Val (PStr record_id)) # (''deserialize_json'', Val (PBool True))
                # translate_to_ckan_record institution_key metadata_record) s0
           = (Inr (RecordDict ckan_record), s1)"
    and "annotate_metadata_record self record_id metadata_record access_token s1 = (Inr (), s2)"
    and "\<not> r_validated ckan_record"
  shows "prefix (calls s2 @ [sent self ''metadata_record_show'' access_token
                   [(''id'', Val (PStr record_id)), (''deserialize_json'', Val (PBool True))]])
           (calls (snd (update_metadata_record self institution_key record_id metadata_record
                          access_token s)))"
  using assms
        validate_checks_first [of s2 self access_token record_id institution_key]
  by (auto simp: update_metadata_record_def Let_def log_def
           split: prod.splits sum.splits exn.splits)


lemma annotate_metadata_record_returns:
  "annotate_metadata_record self record_id metadata_record access_token s =
     (Inr (), snd (annotate_metadata_record self record_id metadata_record access_token s))"
  using annotate_metadata_record_never_raises [of self record_id metadata_record access_token s]
  by (cases "annotate_metadata_record self record_id metadata_record access_token s") simp

text \<open>
  \<^bold>\<open>C1.\<close> In \<^verbatim>\<open>create_or_update_metadata_record\<close> and in \<^verbatim>\<open>update_metadata_record\<close>, when
  the record CKAN returned is not validated, \<^verbatim>\<open>validate_metadata_record\<close> is called after
  the annotations: its \<^verbatim>\<open>metadata_record_show\<close> request is the next one sent. When it fails
  with an \<^verbatim>\<open>HTTPException\<close>, the operation still returns the translated record, not
  validated and with CKAN's errors, and a warning is logged. When it returns a result, the
  returned record is validated and its errors are those of the result.
\<close>

theorem opportunistic_validation:
  "(call_ckan self ''metadata_record_create'' access_token
        ((''deserialize_json'', Val (PBool True))
           # translate_to_ckan_record institution_key metadata_record) s
      = (Inr (RecordDict ckan_record), s1)
    \<and> annotate_metadata_record self (r_id ckan_record) metadata_record access_token s1
      = (Inr (), s2)
    \<and> \<not> r_validated ckan_record
    \<longrightarrow> prefix (calls s2 @ [sent self ''metadata_record_show'' access_token
                   [(''id'', Val (PStr (r_id ckan_record))),
                    (''deserialize_json'', Val (PBool True))]])
           (calls (snd (create_or_update_metadata_record self institution_key metadata_record
                          access_token s)))
       \<and> (validate_metadata_record self institution_key (r_id ckan_record) access_token s2
             = (Inl (HTTPException code d), s3)
           \<longrightarrow> create_or_update_metadata_record self institution_key metadata_record
                 access_token s
                 = (Inr (translate_from_ckan_record ckan_record),
                    log WARNING (validation_warning_text (r_id ckan_record) d) s3)
               \<and> \<not> mr_validated (translate_from_ckan_record ckan_record)
               \<and> mr_errors (translate_from_ckan_record ckan_record) = r_errors ckan_record)
       \<and> (validate_metadata_record self institution_key (r_id ckan_record) access_token s2
             = (Inr validaton_result, s3)
           \<longrightarrow> (\<exists>m. create_or_update_metadata_record self institution_key metadata_record
                      access_token s = (Inr m, s3)
                    \<and> mr_validated m \<and> mr_errors m = vr_errors validaton_result)))
   \<and> (get_metadata_record self institution_key record_id access_token s = (Inr found, s0)
    \<and> call_ckan self ''metadata_record_update'' access_token
        ((''id'', Val (PStr record_id)) # (''deserialize_json'', Val (PBool True))
           # translate_to_ckan_record institution_key metadata_record) s0
      = (Inr (RecordDict ckan_record), s1)
    \<and> annotate_metadata_record self record_id metadata_record access_token s1 = (Inr (), s2)
    \<and> \<not> r_validated ckan_record
    \<longrightarrow> prefix (calls s2 @ [sent self ''metadata_record_show'' access_token
                   [(''id'', Val (PStr record_id)), (''deserialize_json'', Val (PBool True))]])
           (calls (snd (update_metadata_record self institution_key record_id metadata_record
                          access_token s)))
       \<and> (validate_metadata_record self institution_key record_id access_token s2
             = (Inl (HTTPException code d), s3)
           \<longrightarrow> update_metadata_record self institution_key record_id metadata_record
                 access_token s
                 = (Inr (translate_from_ckan_record ckan_record),
                    log WARNING (validation_warning_text record_id d) s3)
               \<and> \<not> mr_validated (translate_from_ckan_record ckan_record)
               \<and> mr_errors (translate_from_ckan_record ckan_record) = r_errors ckan_record)
       \<and> (validate_metadata_record self institution_key record_id access_token s2
             = (Inr validaton_result, s3)
           \<longrightarrow> (\<exists>m. update_metadata_record self institution_key record_id metadata_record
                      access_token s = (Inr m, s3)
                    \<and> mr_validated m \<and> mr_errors m = vr_errors validaton_result)))"
proof -
  have merged: "mr_validated (translate_from_ckan_record
                   (ckan_record\<lparr>r_validated := True, r_errors := vr_errors validaton_result\<rparr>))
                \<and> mr_errors (translate_from_ckan_record
                   (ckan_record\<lparr>r_validated := True, r_errors := vr_errors validaton_result\<rparr>))
                  = vr_errors validaton_result"
    by (simp add: translate_from_ckan_record_def)
  show ?thesis
    using translate_keeps_validation [of ckan_record] merged
          create_validation_invoked [of self access_token institution_key metadata_record s
                                        ckan_record s1 s2]
          create_validation_swallowed [of self access_token institution_key metadata_record s
                                        ckan_record s1 s2 code d s3]
          create_validation_merged [of self access_token institution_key metadata_record s
                                        ckan_record s1 s2 validaton_result s3]
          update_validation_invoked [of self institution_key record_id access_token s found s0
                                        metadata_record ckan_record s1 s2]
          update_validation_swallowed [of self institution_key record_id access_token s found s0
                                        metadata_record ckan_record s1 s2 code d s3]
          update_validation_merged [of self institution_key record_id access_token s found s0
                                        metadata_record ckan_record s1 s2 validaton_result s3]
    by blast
qed


theorem opportunistic_validation_witness:
  "\<not> r_validated demo_record
   \<and> create_or_update_metadata_record demo_adapter ''saeon'' demo_input ''tok''
       (start validation_down)
     = (Inr (translate_from_ckan_record demo_record),
        log WARNING
          (validation_warning_text ''rec-1'' ''Error sending request to CKAN: timeout'')
          (snd (validate_metadata_record demo_adapter ''saeon'' ''rec-1'' ''tok''
             (snd (annotate_metadata_record demo_adapter ''rec-1'' demo_input ''tok''
                (snd (call_ckan demo_adapter ''metadata_record_create'' ''tok''
                   ((''deserialize_json'', Val (PBool True))
                      # translate_to_ckan_record ''saeon'' demo_input)
                   (start validation_down))))))))
   \<and> \<not> mr_validated (translate_from_ckan_record demo_record)
   \<and> (\<exists>m. fst (create_or_update_metadata_record demo_adapter ''saeon'' demo_input ''tok''
                 (start validation_runs)) = Inr m
          \<and> mr_validated m \<and> mr_errors m = [(''title'', PStr ''required'')])
   \<and> update_metadata_record demo_adapter ''saeon'' ''rec-1'' demo_input ''tok''
       (start (Inr (RecordDict demo_record) # validation_down))
     = (Inr (translate_from_ckan_record demo_record),
        log WARNING
          (validation_warning_text ''rec-1'' ''Error sending request to CKAN: timeout'')
          (snd (validate_metadata_record demo_adapter ''saeon'' ''rec-1'' ''tok''
             (snd (annotate_metadata_record demo_adapter ''rec-1'' demo_input ''tok''
                (snd (call_ckan demo_adapter ''metadata_record_update'' ''tok''
                   ((''id'', Val (PStr ''rec-1'')) # (''deserialize_json'', Val (PBool True))
                      # translate_to_ckan_record ''saeon'' demo_input)
                   (snd (get_metadata_record demo_adapter ''saeon'' ''rec-1'' ''tok''
                      (start (Inr (RecordDict demo_record) # validation_down)))))))))))
   \<and> (\<exists>m. fst (update_metadata_record demo_adapter ''saeon'' ''rec-1'' demo_input ''tok''
                 (start (Inr (RecordDict demo_record) # validation_runs))) = Inr m
          \<and> mr_validated m \<and> mr_errors m = [(''title'', PStr ''required'')])"
proof -
  let ?rid = "r_id demo_record"
  let ?create = "\<lambda>sc. call_ckan demo_adapter ''metadata_record_create'' ''tok''
                   ((''deserialize_json'', Val (PBool True))
                      # translate_to_ckan_record ''saeon'' demo_input) (start sc)"
  let ?get = "\<lambda>sc. get_metadata_record demo_adapter ''saeon'' ''rec-1'' ''tok'' (start sc)"
  let ?update = "\<lambda>s. call_ckan demo_adapter ''metadata_record_update'' ''tok''
                   ((''id'', Val (PStr ''rec-1'')) # (''deserialize_json'', Val (PBool True))
                      # translate_to_ckan_record ''saeon'' demo_input) s"
  let ?ann = "\<lambda>s. annotate_metadata_record demo_adapter ''rec-1'' demo_input ''tok'' s"
  let ?val = "\<lambda>s. validate_metadata_record demo_adapter ''saeon'' ''rec-1'' ''tok'' s"
  let ?res = "\<lparr>vr_success = False, vr_errors = [(''title'', PStr ''required'')]\<rparr>"
  let ?down = "HTTPException 503 ''Error sending request to CKAN: timeout''"
  have id: "r_id demo_record = ''rec-1''" and nv: "\<not> r_validated demo_record"
    by (simp_all add: demo_record_def)
  have pair: "\<And>p x. fst p = x \<Longrightarrow> p = (x, snd p)"
    by auto
  have ann: "\<And>s. annotate_metadata_record demo_adapter ?rid demo_input ''tok'' s
                   = (Inr (), snd (?ann s))"
    unfolding id by (rule annotate_metadata_record_returns)
  have res: "vr_errors ?res = [(''title'', PStr ''required'')]"
    by simp
  \<comment> \<open>create, validation fails\<close>
  let ?s1 = "snd (?create validation_down)"
  have "fst (?create validation_down) = Inr (RecordDict demo_record)"
    by (simp add: run_defs validation_down_def)
  then have c1: "?create validation_down = (Inr (RecordDict demo_record), ?s1)"
    by (rule pair)
  have "fst (?val (snd (?ann ?s1))) = Inl ?down"
    by (simp add: run_defs op_defs validation_down_def demo_record_def)
  then have "?val (snd (?ann ?s1)) = (Inl ?down, snd (?val (snd (?ann ?s1))))"
    by (rule pair)
  then have v1: "validate_metadata_record demo_adapter ''saeon'' ?rid ''tok'' (snd (?ann ?s1))
                 = (Inl ?down, snd (?val (snd (?ann ?s1))))"
    by (simp only: id)
  note t1 = opportunistic_validation
         [of demo_adapter "''tok''" "''saeon''" demo_input "start validation_down"
             demo_record ?s1 "snd (?ann ?s1)" 503 "''Error sending request to CKAN: timeout''"
             "snd (?val (snd (?ann ?s1)))" ?res "[]" undefined undefined,
          THEN conjunct1, THEN mp, OF conjI [OF c1 conjI [OF ann nv]],
          THEN conjunct2, THEN conjunct1, THEN mp, OF v1]
  have r1: "create_or_update_metadata_record demo_adapter ''saeon'' demo_input ''tok''
              (start validation_down)
            = (Inr (translate_from_ckan_record demo_record),
               log WARNING
                 (validation_warning_text ''rec-1'' ''Error sending request to CKAN: timeout'')
                 (snd (?val (snd (?ann ?s1)))))"
    using t1 [THEN conjunct1] by (simp only: id)
  have r1': "\<not> mr_validated (translate_from_ckan_record demo_record)"
    using t1 [THEN conjunct2, THEN conjunct1] .
  \<comment> \<open>create, validation runs\<close>
  let ?s2 = "snd (?create validation_runs)"
  have "fst (?create validation_runs) = Inr (RecordDict demo_record)"
    by (simp add: run_defs validation_runs_def)
  then have c2: "?create validation_runs = (Inr (RecordDict demo_record), ?s2)"
    by (rule pair)
  have "fst (?val (snd (?ann ?s2))) = Inr ?res"
    by (simp add: run_defs op_defs validation_runs_def demo_record_def)
  then have "?val (snd (?ann ?s2)) = (Inr ?res, snd (?val (snd (?ann ?s2))))"
    by (rule pair)
  then have v2: "validate_metadata_record demo_adapter ''saeon'' ?rid ''tok'' (snd (?ann ?s2))
                 = (Inr ?res, snd (?val (snd (?ann ?s2))))"
    by (simp only: id)
  note t2 = opportunistic_validation
         [of demo_adapter "''tok''" "''saeon''" demo_input "start validation_runs"
             demo_record ?s2 "snd (?ann ?s2)" 0 "[]" "snd (?val (snd (?ann ?s2)))" ?res
             "[]" undefined undefined,
          THEN conjunct1, THEN mp, OF conjI [OF c2 conjI [OF ann nv]],
          THEN conjunct2, THEN conjunct2, THEN mp, OF v2]
  from t2 obtain m2 where
    m2: "create_or_update_metadata_record demo_adapter ''saeon'' demo_input ''tok''
           (start validation_runs) = (Inr m2, snd (?val (snd (?ann ?s2))))"
        "mr_validated m2" "mr_errors m2 = vr_errors ?res"
    by blast
  have r2: "\<exists>m. fst (create_or_update_metadata_record demo_adapter ''saeon'' demo_input
                   ''tok'' (start validation_runs)) = Inr m
                 \<and> mr_validated m \<and> mr_errors m = [(''title'', PStr ''required'')]"
    using m2 by (intro exI [of _ m2]) (simp only: fst_conv res simp_thms)
  \<comment> \<open>update, validation fails\<close>
  let ?sc3 = "Inr (RecordDict demo_record) # validation_down"
  let ?found = "translate_from_ckan_record demo_record"
  let ?s3 = "snd (?update (snd (?get ?sc3)))"
  have "fst (?get ?sc3) = Inr ?found"
    by (simp add: run_defs op_defs demo_record_def)
  then have g3: "?get ?sc3 = (Inr ?found, snd (?get ?sc3))"
    by (rule pair)
  have "fst (?update (snd (?get ?sc3))) = Inr (RecordDict demo_record)"
    by (simp add: run_defs op_defs validation_down_def demo_record_def)
  then have u3: "?update (snd (?get ?sc3)) = (Inr (RecordDict demo_record), ?s3)"
    by (rule pair)
  have "fst (?val (snd (?ann ?s3))) = Inl ?down"
    by (simp add: run_defs op_defs validation_down_def demo_record_def)
  then have v3: "?val (snd (?ann ?s3)) = (Inl ?down, snd (?val (snd (?ann ?s3))))"
    by (rule pair)
  note a3 = annotate_metadata_record_returns [of demo_adapter "''rec-1''" demo_input "''tok''" ?s3]
  note t3 = opportunistic_validation
         [of demo_adapter "''tok''" "''saeon''" demo_input "start ?sc3"
             demo_record ?s3 "snd (?ann ?s3)" 503 "''Error sending request to CKAN: timeout''"
             "snd (?val (snd (?ann ?s3)))" ?res "''rec-1''" ?found "snd (?get ?sc3)",
          THEN conjunct2, THEN mp, OF conjI [OF g3 conjI [OF u3 conjI [OF a3 nv]]],
          THEN conjunct2, THEN conjunct1, THEN mp, OF v3]
  note r3 = t3 [THEN conjunct1]
  \<comment> \<open>update, validation runs\<close>
  let ?sc4 = "Inr (RecordDict demo_record) # validation_runs"
  let ?s4 = "snd (?update (snd (?get ?sc4)))"
  have "fst (?get ?sc4) = Inr ?found"
    by (simp add: run_defs op_defs demo_record_def)
  then have g4: "?get ?sc4 = (Inr ?found, snd (?get ?sc4))"
    by (rule pair)
  have "fst (?update (snd (?get ?sc4))) = Inr (RecordDict demo_record)"
    by (simp add: run_defs op_defs validation_runs_def demo_record_def)
  then have u4: "?update (snd (?get ?sc4)) = (Inr (RecordDict demo_record), ?s4)"
    by (rule pair)
  have "fst (?val (snd (?ann ?s4))) = Inr ?res"
    by (simp add: run_defs op_defs validation_runs_def demo_record_def)
  then have v4: "?val (snd (?ann ?s4)) = (Inr ?res, snd (?val (snd (?ann ?s4))))"
    by (rule pair)
  note a4 = annotate_metadata_record_returns [of demo_adapter "''rec-1''" demo_input "''tok''" ?s4]
  note t4 = opportunistic_validation
         [of demo_adapter "''tok''" "''saeon''" demo_input "start ?sc4"
             demo_record ?s4 "snd (?ann ?s4)" 0 "[]" "snd (?val (snd (?ann ?s4)))" ?res
             "''rec-1''" ?found "snd (?get ?sc4)",
          THEN conjunct2, THEN mp, OF conjI [OF g4 conjI [OF u4 conjI [OF a4 nv]]],
          THEN conjunct2, THEN conjunct2, THEN mp, OF v4]
  from t4 obtain m4 where
    m4: "update_metadata_record demo_adapter ''saeon'' ''rec-1'' demo_input ''tok''
           (start ?sc4) = (Inr m4, snd (?val (snd (?ann ?s4))))"
        "mr_validated m4" "mr_errors m4 = vr_errors ?res"
    by blast
  have r4: "\<exists>m. fst (update_metadata_record demo_adapter ''saeon'' ''rec-1'' demo_input
                   ''tok'' (start ?sc4)) = Inr m
                 \<and> mr_validated m \<and> mr_errors m = [(''title'', PStr ''required'')]"
    using m4 by (intro exI [of _ m4]) (simp only: fst_conv res simp_thms)
  show ?thesis
    by (intro conjI nv r1 r1' r2 r3 r4)
qed

subsection \<open>Annotations inside create and update\<close>

lemma annotate_requests:
  "calls (snd (annotate self record_id access_token key value s))
     = calls s @ [sent self ''metadata_record_workflow_annotation_create'' access_token
                    [(''id'', Val (PStr record_id)), (''key'', Val (PStr key)),
                     (''value'', JsonDumps value)]]
   \<or> calls (snd (annotate self record_id access_token key value s))
     = calls s @ [sent self ''metadata_record_workflow_annotation_create'' access_token
                    [(''id'', Val (PStr record_id)), (''key'', Val (PStr key)),
                     (''value'', JsonDumps value)],
                  sent self ''metadata_record_workflow_annotation_update'' access_token
                    [(''id'', Val (PStr record_id)), (''key'', Val (PStr key)),
                     (''value'', JsonDumps value)]]"
  unfolding annotate_def Let_def
  by (auto split: prod.splits sum.splits exn.splits option.splits simp: log_def
           dest!: call_ckan_callsD)

lemma annotate_requests_ex:
  "\<exists>us. calls (snd (annotate self record_id access_token key value s))
          = calls s @ sent self ''metadata_record_workflow_annotation_create'' access_token
                    [(''id'', Val (PStr record_id)), (''key'', Val (PStr key)),
                     (''value'', JsonDumps value)] # us
        \<and> (us = [] \<or> us = [sent self ''metadata_record_workflow_annotation_update'' access_token
                    [(''id'', Val (PStr record_id)), (''key'', Val (PStr key)),
                     (''value'', JsonDumps value)]])"
  using annotate_requests [of self record_id access_token key "value" s] by auto

lemma annotate_metadata_record_requests:
  "\<exists>us1 us2 us3.
     calls (snd (annotate_metadata_record self record_id metadata_record access_token s))
       = calls s
         @ sent self ''metadata_record_workflow_annotation_create'' access_token
             [(''id'', Val (PStr record_id)), (''key'', Val (PStr ''terms_and_conditions'')),
              (''value'', JsonDumps
                 (PDict [(''accepted'', PBool (mi_terms_conditions_accepted metadata_record))]))]
           # us1
         @ sent self ''metadata_record_workflow_annotation_create'' access_token
             [(''id'', Val (PStr record_id)), (''key'', Val (PStr ''data_agreement'')),
              (''value'', JsonDumps
                 (PDict [(''accepted'', PBool (mi_data_agreement_accepted metadata_record)),
                         (''href'', opt_str (mi_data_agreement_url metadata_record))]))]
           # us2
         @ sent self ''metadata_record_workflow_annotation_create'' access_token
             [(''id'', Val (PStr record_id)), (''key'', Val (PStr ''capture_info'')),
              (''value'', JsonDumps
                 (PDict [(''capture_method'', PStr (mi_capture_method metadata_record))]))]
           # us3
     \<and> (us1 = [] \<or> us1 = [sent self ''metadata_record_workflow_annotation_update'' access_token
             [(''id'', Val (PStr record_id)), (''key'', Val (PStr ''terms_and_conditions'')),
              (''value'', JsonDumps
                 (PDict [(''accepted'', PBool (mi_terms_conditions_accepted metadata_record))]))]])
     \<and> (us2 = [] \<or> us2 = [sent self ''metadata_record_workflow_annotation_update'' access_token
             [(''id'', Val (PStr record_id)), (''key'', Val (PStr ''data_agreement'')),
              (''value'', JsonDumps
                 (PDict [(''accepted'', PBool (mi_data_agreement_accepted metadata_record)),
                         (''href'', opt_str (mi_data_agreement_url metadata_record))]))]])
     \<and> (us3 = [] \<or> us3 = [sent self ''metadata_record_workflow_annotation_update'' access_token
             [(''id'', Val (PStr record_id)), (''key'', Val (PStr ''capture_info'')),
              (''value'', JsonDumps
                 (PDict [(''capture_method'', PStr (mi_capture_method metadata_record))]))]])"
proof -
  let ?v1 = "PDict [(''accepted'', PBool (mi_terms_conditions_accepted metadata_record))]"
  let ?v2 = "PDict [(''accepted'', PBool (mi_data_agreement_accepted metadata_record)),
                    (''href'', opt_str (mi_data_agreement_url metadata_record))]"
  let ?v3 = "PDict [(''capture_method'', PStr (mi_capture_method metadata_record))]"
  let ?s1 = "snd (annotate self record_id access_token ''terms_and_conditions'' ?v1 s)"
  let ?s2 = "snd (annotate self record_id access_token ''data_agreement'' ?v2 ?s1)"
  let ?s3 = "snd (annotate self record_id access_token ''capture_info'' ?v3 ?s2)"
  from annotate_requests_ex [of self record_id access_token "''terms_and_conditions''" ?v1 s]
  obtain us1 where 1: "calls ?s1 = calls s
      @ sent self ''metadata_record_workflow_annotation_create'' access_token
          [(''id'', Val (PStr record_id)), (''key'', Val (PStr ''terms_and_conditions'')),
           (''value'', JsonDumps ?v1)] # us1"
    and u1: "us1 = [] \<or> us1 = [sent self ''metadata_record_workflow_annotation_update'' access_token
          [(''id'', Val (PStr record_id)), (''key'', Val (PStr ''terms_and_conditions'')),
           (''value'', JsonDumps ?v1)]]"
    by blast
  from annotate_requests_ex [of self record_id access_token "''data_agreement''" ?v2 ?s1]
  obtain us2 where 2: "calls ?s2 = calls ?s1
      @ sent self ''metadata_record_workflow_annotation_create'' access_token
          [(''id'', Val (PStr record_id)), (''key'', Val (PStr ''data_agreement'')),
           (''value'', JsonDumps ?v2)] # us2"
    and u2: "us2 = [] \<or> us2 = [sent self ''metadata_record_workflow_annotation_update'' access_token
          [(''id'', Val (PStr record_id)), (''key'', Val (PStr ''data_agreement'')),
           (''value'', JsonDumps ?v2)]]"
    by blast
  from annotate_requests_ex [of self record_id access_token "''capture_info''" ?v3 ?s2]
  obtain us3 where 3: "calls ?s3 = calls ?s2
      @ sent self ''metadata_record_workflow_annotation_create'' access_token
          [(''id'', Val (PStr record_id)), (''key'', Val (PStr ''capture_info'')),
           (''value'', JsonDumps ?v3)] # us3"
    and u3: "us3 = [] \<or> us3 = [sent self ''metadata_record_workflow_annotation_update'' access_token
          [(''id'', Val (PStr record_id)), (''key'', Val (PStr ''capture_info'')),
           (''value'', JsonDumps ?v3)]]"
    by blast
  have "snd (annotate_metadata_record self record_id metadata_record access_token s) = ?s3"
    by (subst annotate_metadata_record_order) simp
  then have "calls (snd (annotate_metadata_record self record_id metadata_record access_token s))
       = calls s
         @ sent self ''metadata_record_workflow_annotation_create'' access_token
             [(''id'', Val (PStr record_id)), (''key'', Val (PStr ''terms_and_conditions'')),
              (''value'', JsonDumps ?v1)] # us1
         @ sent self ''metadata_record_workflow_annotation_create'' access_token
             [(''id'', Val (PStr record_id)), (''key'', Val (PStr ''data_agreement'')),
              (''value'', JsonDumps ?v2)] # us2
         @ sent self ''metadata_record_workflow_annotation_create'' access_token
             [(''id'', Val (PStr record_id)), (''key'', Val (PStr ''capture_info'')),
              (''value'', JsonDumps ?v3)] # us3"
    by (simp only: 1 2 3 append_assoc append_Cons)
  with u1 u2 u3 show ?thesis by blast
qed

lemma create_continues_after_annotations:
  assumes "call_ckan self ''metadata_record_create'' access_token
             ((''deserialize_json'', Val (PBool True))
                # translate_to_ckan_record institution_key metadata_record) s
           = (Inr (RecordDict ckan_record), s1)"
  shows "create_or_update_metadata_record self institution_key metadata_record access_token s
           = (if r_validated ckan_record
              then (Inr (translate_from_ckan_record ckan_record),
                    snd (annotate_metadata_record self (r_id ckan_record) metadata_record
                           access_token s1))
              else (case validate_metadata_record self institution_key (r_id ckan_record)
                           access_token
                           (snd (annotate_metadata_record self (r_id ckan_record)
                                   metadata_record access_token s1)) of
                      (Inr validaton_result, s3) \<Rightarrow>
                        (Inr (translate_from_ckan_record
                                (ckan_record\<lparr>r_validated := True,
                                   r_errors := vr_errors validaton_result\<rparr>)), s3)
                    | (Inl (HTTPException code d), s3) \<Rightarrow>
                        (Inr (translate_from_ckan_record ckan_record),
                         log WARNING (validation_warning_text (r_id ckan_record) d) s3)
                    | (Inl ShapeError, s3) \<Rightarrow> (Inl ShapeError, s3)))"
proof -
  obtain s2 where
    ann: "annotate_metadata_record self (r_id ckan_record) metadata_record access_token s1
            = (Inr (), s2)"
    using annotate_metadata_record_returns by blast
  show ?thesis
    by (simp add: create_or_update_metadata_record_def Let_def assms ann
             split: prod.splits sum.splits exn.splits)
qed

lemma update_continues_after_annotations:
  assumes "get_metadata_record self institution_key record_id access_token s = (Inr found, s0)"
    and "call_ckan self ''metadata_record_update'' access_token
             ((''id'', Val (PStr record_id)) # (''deserialize_json'', Val (PBool True))
                # translate_to_ckan_record institution_key metadata_record) s0
           = (Inr (RecordDict ckan_record), s1)"
  shows "update_metadata_record self institution_key record_id metadata_record access_token s
           = (if r_validated ckan_record
              then (Inr (translate_from_ckan_record ckan_record),
                    snd (annotate_metadata_record self record_id metadata_record
                           access_token s1))
              else (case validate_metadata_record self institution_key record_id access_token
                           (snd (annotate_metadata_record self record_id metadata_record
                                   access_token s1)) of
                      (Inr validaton_result, s3) \<Rightarrow>
                        (Inr (translate_from_ckan_record
                                (ckan_record\<lparr>r_validated := True,
                                   r_errors := vr_errors validaton_result\<rparr>)), s3)
                    | (Inl (HTTPException code d), s3) \<Rightarrow>
                        (Inr (translate_from_ckan_record ckan_record),
                         log WARNING (validation_warning_text record_id d) s3)
                    | (Inl ShapeError, s3) \<Rightarrow> (Inl ShapeError, s3)))"
proof -
  obtain s2 where
    ann: "annotate_metadata_record self record_id metadata_record access_token s1
            = (Inr (), s2)"
    using annotate_metadata_record_returns by blast
  show ?thesis
    by (simp add: update_metadata_record_def Let_def assms ann
             split: prod.splits sum.splits exn.splits)
qed

text \<open>
  \<^bold>\<open>C3.\<close> Annotating a record never raises. The three annotations are set in the order
  \<^verbatim>\<open>terms_and_conditions\<close>, \<^verbatim>\<open>data_agreement\<close>, \<^verbatim>\<open>capture_info\<close>. For each one the create
  action is called first; when it succeeds nothing else happens; when it fails with a
  status other than 400 the error is logged; when it fails with status 400 the update
  action is called with the same record id, key and value, and an error of that call is
  logged. So the requests of the annotation step are the three create requests in that
  order, each followed by nothing or by its update request. Every create and every update
  of a metadata record runs this step right after CKAN has answered, and goes on from the
  state the step leaves whatever the annotation calls returned: with a validated record it
  returns the translated record, with an unvalidated one it goes on to the validation.
\<close>

theorem annotations_fall_back_and_never_fail:
  "annotate_metadata_record self record_id metadata_record access_token s =
     (Inr (),
      snd (annotate self record_id access_token ''capture_info''
            (PDict [(''capture_method'', PStr (mi_capture_method metadata_record))])
       (snd (annotate self record_id access_token ''data_agreement''
            (PDict [(''accepted'', PBool (mi_data_agreement_accepted metadata_record)),
                    (''href'', opt_str (mi_data_agreement_url metadata_record))])
       (snd (annotate self record_id access_token ''terms_and_conditions''
            (PDict [(''accepted'', PBool (mi_terms_conditions_accepted metadata_record))]) s))))))
   \<and> fst (annotate self record_id access_token key value s0) = Inr ()
   \<and> (call_ckan self ''metadata_record_workflow_annotation_create'' access_token
          [(''id'', Val (PStr record_id)), (''key'', Val (PStr key)),
           (''value'', JsonDumps value)] s0 = (Inr v, s1)
        \<longrightarrow> annotate self record_id access_token key value s0 = (Inr (), s1))
   \<and> (call_ckan self ''metadata_record_workflow_annotation_create'' access_token
          [(''id'', Val (PStr record_id)), (''key'', Val (PStr key)),
           (''value'', JsonDumps value)] s0 = (Inl (HTTPException code d), s1)
        \<and> code \<noteq> 400
        \<longrightarrow> annotate self record_id access_token key value s0
              = (Inr (), log ERROR (annotation_error_text key record_id d) s1))
   \<and> (call_ckan self ''metadata_record_workflow_annotation_create'' access_token
          [(''id'', Val (PStr record_id)), (''key'', Val (PStr key)),
           (''value'', JsonDumps value)] s0 = (Inl (HTTPException 400 d), s1)
        \<and> call_ckan self ''metadata_record_workflow_annotation_update'' access_token
          [(''id'', Val (PStr record_id)), (''key'', Val (PStr key)),
           (''value'', JsonDumps value)] s1 = (Inr v', s2)
        \<longrightarrow> annotate self record_id access_token key value s0 = (Inr (), s2))
   \<and> (call_ckan self ''metadata_record_workflow_annotation_create'' access_token
          [(''id'', Val (PStr record_id)), (''key'', Val (PStr key)),
           (''value'', JsonDumps value)] s0 = (Inl (HTTPException 400 d), s1)
        \<and> call_ckan self ''metadata_record_workflow_annotation_update'' access_token
          [(''id'', Val (PStr record_id)), (''key'', Val (PStr key)),
           (''value'', JsonDumps value)] s1 = (Inl (HTTPException code2 d2), s2)
        \<longrightarrow> annotate self record_id access_token key value s0
              = (Inr (), log ERROR (annotation_error_text key record_id d2) s2))
   \<and> (\<exists>us1 us2 us3.
     calls (snd (annotate_metadata_record self record_id metadata_record access_token s))
       = calls s
         @ sent self ''metadata_record_workflow_annotation_create'' access_token
             [(''id'', Val (PStr record_id)), (''key'', Val (PStr ''terms_and_conditions'')),
              (''value'', JsonDumps
                 (PDict [(''accepted'', PBool (mi_terms_conditions_accepted metadata_record))]))]
           # us1
         @ sent self ''metadata_record_workflow_annotation_create'' access_token
             [(''id'', Val (PStr record_id)), (''key'', Val (PStr ''data_agreement'')),
              (''value'', JsonDumps
                 (PDict [(''accepted'', PBool (mi_data_agreement_accepted metadata_record)),
                         (''href'', opt_str (mi_data_agreement_url metadata_record))]))]
           # us2
         @ sent self ''metadata_record_workflow_annotation_create'' access_token
             [(''id'', Val (PStr record_id)), (''key'', Val (PStr ''capture_info'')),
              (''value'', JsonDumps
                 (PDict [(''capture_method'', PStr (mi_capture_method metadata_record))]))]
           # us3
     \<and> (us1 = [] \<or> us1 = [sent self ''metadata_record_workflow_annotation_update'' access_token
             [(''id'', Val (PStr record_id)), (''key'', Val (PStr ''terms_and_conditions'')),
              (''value'', JsonDumps
                 (PDict [(''accepted'', PBool (mi_terms_conditions_accepted metadata_record))]))]])
     \<and> (us2 = [] \<or> us2 = [sent self ''metadata_record_workflow_annotation_update'' access_token
             [(''id'', Val (PStr record_id)), (''key'', Val (PStr ''data_agreement'')),
              (''value'', JsonDumps
                 (PDict [(''accepted'', PBool (mi_data_agreement_accepted metadata_record)),
                         (''href'', opt_str (mi_data_agreement_url metadata_record))]))]])
     \<and> (us3 = [] \<or> us3 = [sent self ''metadata_record_workflow_annotation_update'' access_token
             [(''id'', Val (PStr record_id)), (''key'', Val (PStr ''capture_info'')),
              (''value'', JsonDumps
                 (PDict [(''capture_method'', PStr (mi_capture_method metadata_record))]))]]))
   \<and> (call_ckan self ''metadata_record_create'' access_token
          ((''deserialize_json'', Val (PBool True))
             # translate_to_ckan_record institution_key metadata_record) t
        = (Inr (RecordDict ckan_record), t1)
      \<longrightarrow> create_or_update_metadata_record self institution_key metadata_record
            access_token t
          = (if r_validated ckan_record
             then (Inr (translate_from_ckan_record ckan_record),
                   snd (annotate_metadata_record self (r_id ckan_record) metadata_record
                          access_token t1))
             else (case validate_metadata_record self institution_key (r_id ckan_record)
                          access_token
                          (snd (annotate_metadata_record self (r_id ckan_record)
                                  metadata_record access_token t1)) of
                     (Inr validaton_result, t3) \<Rightarrow>
                       (Inr (translate_from_ckan_record
                               (ckan_record\<lparr>r_validated := True,
                                  r_errors := vr_errors validaton_result\<rparr>)), t3)
                   | (Inl (HTTPException code3 d3), t3) \<Rightarrow>
                       (Inr (translate_from_ckan_record ckan_record),
                        log WARNING (validation_warning_text (r_id ckan_record) d3) t3)
                   | (Inl ShapeError, t3) \<Rightarrow> (Inl ShapeError, t3))))
   \<and> (get_metadata_record self institution_key record_id access_token t = (Inr found, t0)
      \<and> call_ckan self ''metadata_record_update'' access_token
          ((''id'', Val (PStr record_id)) # (''deserialize_json'', Val (PBool True))
             # translate_to_ckan_record institution_key metadata_record) t0
        = (Inr (RecordDict ckan_record), t1)
      \<longrightarrow> update_metadata_record self institution_key record_id metadata_record
            access_token t
          = (if r_validated ckan_record
             then (Inr (translate_from_ckan_record ckan_record),
                   snd (annotate_metadata_record self record_id metadata_record
                          access_token t1))
             else (case validate_metadata_record self institution_key record_id access_token
                          (snd (annotate_metadata_record self record_id metadata_record
                                  access_token t1)) of
                     (Inr validaton_result, t3) \<Rightarrow>
                       (Inr (translate_from_ckan_record
                               (ckan_record\<lparr>r_validated := True,
                                  r_errors := vr_errors validaton_result\<rparr>)), t3)
                   | (Inl (HTTPException code3 d3), t3) \<Rightarrow>
                       (Inr (translate_from_ckan_record ckan_record),
                        log WARNING (validation_warning_text record_id d3) t3)
                   | (Inl ShapeError, t3) \<Rightarrow> (Inl ShapeError, t3))))"
proof -
  note a = annotate_contract [of self record_id metadata_record access_token s key "value" s0
                                 v s1 code d v' s2 code2 d2]
  note a1 = a [THEN conjunct1]
  note a2 = a [THEN conjunct2, THEN conjunct1]
  note a3 = a [THEN conjunct2, THEN conjunct2, THEN conjunct1]
  note a4 = a [THEN conjunct2, THEN conjunct2, THEN conjunct2, THEN conjunct1]
  note a5 = a [THEN conjunct2, THEN conjunct2, THEN conjunct2, THEN conjunct2, THEN conjunct1]
  note a6 = a [THEN conjunct2, THEN conjunct2, THEN conjunct2, THEN conjunct2, THEN conjunct2]
  note b = annotate_metadata_record_requests [of self record_id metadata_record access_token s]
  note c = create_continues_after_annotations [of self access_token institution_key
                                                  metadata_record t ckan_record t1]
  note d = update_continues_after_annotations [of self institution_key record_id access_token t
                                                  found t0 metadata_record ckan_record t1]
  show ?thesis
    apply (rule conjI, rule a1)
    apply (rule conjI, rule a2)
    apply (rule conjI, rule a3)
    apply (rule conjI, rule a4)
    apply (rule conjI, rule a5)
    apply (rule conjI, rule a6)
    apply (rule conjI, rule b)
    apply (rule conjI)
     apply (rule impI, erule c)
    apply (rule impI, erule conjE, erule d, assumption)
    done
qed

theorem annotations_fall_back_and_never_fail_witness:
  "call_ckan demo_adapter ''metadata_record_workflow_annotation_create'' ''tok'' tc_kwargs
       (start [Inl (ValidationError ''duplicate''), Inl (NotFound ''gone'')])
     = (Inl (HTTPException 400 ''CKAN validation error: duplicate''),
        \<lparr>backend = [Inl (NotFound ''gone'')],
         calls = [sent demo_adapter ''metadata_record_workflow_annotation_create'' ''tok'' tc_kwargs],
         logged = []\<rparr>)
   \<and> call_ckan demo_adapter ''metadata_record_workflow_annotation_update'' ''tok'' tc_kwargs
        \<lparr>backend = [Inl (NotFound ''gone'')],
         calls = [sent demo_adapter ''metadata_record_workflow_annotation_create'' ''tok'' tc_kwargs],
         logged = []\<rparr>
     = (Inl (HTTPException 404 ''CKAN resource not found: gone''),
        \<lparr>backend = [],
         calls = [sent demo_adapter ''metadata_record_workflow_annotation_create'' ''tok'' tc_kwargs,
                  sent demo_adapter ''metadata_record_workflow_annotation_update'' ''tok'' tc_kwargs],
         logged = []\<rparr>)
   \<and> annotate demo_adapter ''rec-1'' ''tok'' ''terms_and_conditions''
        (PDict [(''accepted'', PBool True)])
        (start [Inl (ValidationError ''duplicate''), Inl (NotFound ''gone'')])
     = (Inr (),
        \<lparr>backend = [],
         calls = [sent demo_adapter ''metadata_record_workflow_annotation_create'' ''tok'' tc_kwargs,
                  sent demo_adapter ''metadata_record_workflow_annotation_update'' ''tok'' tc_kwargs],
         logged = [(ERROR, annotation_error_text ''terms_and_conditions'' ''rec-1''
                             ''CKAN resource not found: gone'')]\<rparr>)
   \<and> create_or_update_metadata_record demo_adapter ''saeon'' demo_input ''tok''
       (start annotations_troubled)
     = (Inr (translate_from_ckan_record (demo_record\<lparr>r_validated := True\<rparr>)),
        \<lparr>backend = [],
         calls = [sent demo_adapter ''metadata_record_create'' ''tok''
                    ((''deserialize_json'', Val (PBool True))
                       # translate_to_ckan_record ''saeon'' demo_input),
                  sent demo_adapter ''metadata_record_workflow_annotation_create'' ''tok'' tc_kwargs,
                  sent demo_adapter ''metadata_record_workflow_annotation_update'' ''tok'' tc_kwargs,
                  sent demo_adapter ''metadata_record_workflow_annotation_create'' ''tok'' da_kwargs,
                  sent demo_adapter ''metadata_record_workflow_annotation_create'' ''tok'' ci_kwargs],
         logged = [(ERROR, annotation_error_text ''terms_and_conditions'' ''rec-1''
                             ''CKAN resource not found: gone''),
                   (ERROR, annotation_error_text ''capture_info'' ''rec-1''
                             ''Error sending request to CKAN: timeout'')]\<rparr>)"
proof -
  let ?s0 = "start [Inl (ValidationError ''duplicate''), Inl (NotFound ''gone'')]"
  let ?s1 = "\<lparr>backend = [Inl (NotFound ''gone'')],
         calls = [sent demo_adapter ''metadata_record_workflow_annotation_create'' ''tok'' tc_kwargs],
         logged = []\<rparr>"
  let ?s2 = "\<lparr>backend = [],
         calls = [sent demo_adapter ''metadata_record_workflow_annotation_create'' ''tok'' tc_kwargs,
                  sent demo_adapter ''metadata_record_workflow_annotation_update'' ''tok'' tc_kwargs],
         logged = []\<rparr>"
  have h1: "call_ckan demo_adapter ''metadata_record_workflow_annotation_create'' ''tok'' tc_kwargs ?s0
              = (Inl (HTTPException 400 ''CKAN validation error: duplicate''), ?s1)"
    by (simp add: run_defs)
  have h2: "call_ckan demo_adapter ''metadata_record_workflow_annotation_update'' ''tok'' tc_kwargs ?s1
              = (Inl (HTTPException 404 ''CKAN resource not found: gone''), ?s2)"
    by (simp add: run_defs)
  from annotations_fall_back_and_never_fail
         [of demo_adapter "''rec-1''" demo_input "''tok''" ?s0 "''terms_and_conditions''"
             "PDict [(''accepted'', PBool True)]" ?s0 _ ?s1 _
             "''CKAN validation error: duplicate''" _ ?s2 404 "''CKAN resource not found: gone''"]
       h1 h2
  have h3: "annotate demo_adapter ''rec-1'' ''tok'' ''terms_and_conditions''
          (PDict [(''accepted'', PBool True)]) ?s0
        = (Inr (), log ERROR (annotation_error_text ''terms_and_conditions'' ''rec-1''
                             ''CKAN resource not found: gone'') ?s2)"
    unfolding tc_kwargs_def by blast
  from h1 h2 h3 have old: "call_ckan demo_adapter ''metadata_record_workflow_annotation_create'' ''tok'' tc_kwargs
           (start [Inl (ValidationError ''duplicate''), Inl (NotFound ''gone'')])
         = (Inl (HTTPException 400 ''CKAN validation error: duplicate''),
            \<lparr>backend = [Inl (NotFound ''gone'')],
             calls = [sent demo_adapter ''metadata_record_workflow_annotation_create'' ''tok'' tc_kwargs],
             logged = []\<rparr>)
       \<and> call_ckan demo_adapter ''metadata_record_workflow_annotation_update'' ''tok'' tc_kwargs
            \<lparr>backend = [Inl (NotFound ''gone'')],
             calls = [sent demo_adapter ''metadata_record_workflow_annotation_create'' ''tok'' tc_kwargs],
             logged = []\<rparr>
         = (Inl (HTTPException 404 ''CKAN resource not found: gone''),
            \<lparr>backend = [],
             calls = [sent demo_adapter ''metadata_record_workflow_annotation_create'' ''tok'' tc_kwargs,
                      sent demo_adapter ''metadata_record_workflow_annotation_update'' ''tok'' tc_kwargs],
             logged = []\<rparr>)
       \<and> annotate demo_adapter ''rec-1'' ''tok'' ''terms_and_conditions''
            (PDict [(''accepted'', PBool True)])
            (start [Inl (ValidationError ''duplicate''), Inl (NotFound ''gone'')])
         = (Inr (),
            \<lparr>backend = [],
             calls = [sent demo_adapter ''metadata_record_workflow_annotation_create'' ''tok'' tc_kwargs,
                      sent demo_adapter ''metadata_record_workflow_annotation_update'' ''tok'' tc_kwargs],
             logged = [(ERROR, annotation_error_text ''terms_and_conditions'' ''rec-1''
                                 ''CKAN resource not found: gone'')]\<rparr>)"
    by (simp add: log_def)
  let ?rv = "demo_record\<lparr>r_validated := True\<rparr>"
  let ?t1 = "snd (call_ckan demo_adapter ''metadata_record_create'' ''tok''
                    ((''deserialize_json'', Val (PBool True))
                       # translate_to_ckan_record ''saeon'' demo_input)
                    (start annotations_troubled))"
  have "fst (call_ckan demo_adapter ''metadata_record_create'' ''tok''
               ((''deserialize_json'', Val (PBool True))
                  # translate_to_ckan_record ''saeon'' demo_input)
               (start annotations_troubled)) = Inr (RecordDict ?rv)"
    by (simp add: run_defs annotations_troubled_def)
  then have c: "call_ckan demo_adapter ''metadata_record_create'' ''tok''
               ((''deserialize_json'', Val (PBool True))
                  # translate_to_ckan_record ''saeon'' demo_input)
               (start annotations_troubled) = (Inr (RecordDict ?rv), ?t1)"
    by (metis prod.collapse)
  have v: "r_validated ?rv" and i: "r_id ?rv = ''rec-1''"
    by (simp_all add: demo_record_def)
  note n = annotations_fall_back_and_never_fail
             [of demo_adapter "''rec-1''" demo_input "''tok''" ?s0 "''terms_and_conditions''"
                 "PDict [(''accepted'', PBool True)]" ?s0 undefined ?s1 0
                 "''CKAN validation error: duplicate''" undefined ?s2 404
                 "''CKAN resource not found: gone''" "''saeon''" "start annotations_troubled"
                 ?rv ?t1]
  note n8 = n [THEN conjunct2, THEN conjunct2, THEN conjunct2, THEN conjunct2, THEN conjunct2,
               THEN conjunct2, THEN conjunct2, THEN conjunct1, THEN mp, OF c]
  have e: "snd (annotate_metadata_record demo_adapter ''rec-1'' demo_input ''tok'' ?t1)
           = \<lparr>backend = [],
         calls = [sent demo_adapter ''metadata_record_create'' ''tok''
                    ((''deserialize_json'', Val (PBool True))
                       # translate_to_ckan_record ''saeon'' demo_input),
                  sent demo_adapter ''metadata_record_workflow_annotation_create'' ''tok'' tc_kwargs,
                  sent demo_adapter ''metadata_record_workflow_annotation_update'' ''tok'' tc_kwargs,
                  sent demo_adapter ''metadata_record_workflow_annotation_create'' ''tok'' da_kwargs,
                  sent demo_adapter ''metadata_record_workflow_annotation_create'' ''tok'' ci_kwargs],
         logged = [(ERROR, annotation_error_text ''terms_and_conditions'' ''rec-1''
                             ''CKAN resource not found: gone''),
                   (ERROR, annotation_error_text ''capture_info'' ''rec-1''
                             ''Error sending request to CKAN: timeout'')]\<rparr>"
    by (simp add: run_defs op_defs annotations_troubled_def demo_input_def
                  tc_kwargs_def da_kwargs_def ci_kwargs_def)
  have new: "create_or_update_metadata_record demo_adapter ''saeon'' demo_input ''tok''
           (start annotations_troubled)
         = (Inr (translate_from_ckan_record (demo_record\<lparr>r_validated := True\<rparr>)),
            \<lparr>backend = [],
             calls = [sent demo_adapter ''metadata_record_create'' ''tok''
                        ((''deserialize_json'', Val (PBool True))
                           # translate_to_ckan_record ''saeon'' demo_input),
                      sent demo_adapter ''metadata_record_workflow_annotation_create'' ''tok'' tc_kwargs,
                      sent demo_adapter ''metadata_record_workflow_annotation_update'' ''tok'' tc_kwargs,
                      sent demo_adapter ''metadata_record_workflow_annotation_create'' ''tok'' da_kwargs,
                      sent demo_adapter ''metadata_record_workflow_annotation_create'' ''tok'' ci_kwargs],
             logged = [(ERROR, annotation_error_text ''terms_and_conditions'' ''rec-1''
                                 ''CKAN resource not found: gone''),
                       (ERROR, annotation_error_text ''capture_info'' ''rec-1''
                                 ''Error sending request to CKAN: timeout'')]\<rparr>)"
    using n8 by (simp only: v i if_True e)
  show ?thesis
    apply (rule conjI, rule old [THEN conjunct1])
    apply (rule conjI, rule old [THEN conjunct2, THEN conjunct1])
    apply (rule conjI, rule old [THEN conjunct2, THEN conjunct2])
    apply (rule new)
    done
qed

subsection \<open>Key normalization and the project upsert\<close>

lemma endswith_iff_suffix: "endswith s suf \<longleftrightarrow> suffix suf s"
proof
  assume "endswith s suf"
  then have "s = take (length s - length suf) s @ suf"
    by (metis append_take_drop_id endswith_def)
  then show "suffix suf s"
    by (metis suffixI)
next
  assume "suffix suf s"
  then obtain pre where "s = pre @ suf"
    by (auto simp: suffix_def)
  then show "endswith s suf"
    by (simp add: endswith_def)
qed

lemma normalize_key_ends: "suffix SUFFIX (normalize_key SUFFIX key)"
  by (simp add: normalize_key_def suffix_def)

lemma normalize_key_idem:
  "normalize_key SUFFIX (normalize_key SUFFIX key) = normalize_key SUFFIX key"
  using normalize_key_ends [of SUFFIX key] by (simp add: normalize_key_def)

lemma normalized_collection:
  "(if \<not> endswith (ci_key collection) SUFFIX
    then collection\<lparr>ci_key := ci_key collection @ SUFFIX\<rparr> else collection)
   = collection\<lparr>ci_key := normalize_key SUFFIX (ci_key collection)\<rparr>"
  by (simp add: normalize_key_def endswith_iff_suffix)

lemma normalized_project:
  "(if \<not> endswith (pr_key project) SUFFIX
    then project\<lparr>pr_key := pr_key project @ SUFFIX\<rparr> else project)
   = project\<lparr>pr_key := normalize_key SUFFIX (pr_key project)\<rparr>"
  by (simp add: normalize_key_def endswith_iff_suffix)

lemma create_collection_normalized:
  assumes "call_ckan self ''metadata_collection_create'' access_token
             (translate_to_ckan_collection institution_key
                (collection\<lparr>ci_key := normalize_key SUFFIX (ci_key collection)\<rparr>)) s
           = (r, s1)"
  shows "create_collection SUFFIX self institution_key collection access_token s
           = (case r of
                Inl e \<Rightarrow> Inl e
              | Inr (CollectionDict ckan_collection) \<Rightarrow>
                  Inr (translate_from_ckan_collection ckan_collection)
              | Inr _ \<Rightarrow> Inl ShapeError,
              collection\<lparr>ci_key := normalize_key SUFFIX (ci_key collection)\<rparr>, s1)"
  unfolding create_collection_def normalized_collection
  by (simp add: assms split: sum.splits ckan_value.splits)

lemma create_collection_object:
  "fst (snd (create_collection SUFFIX self institution_key collection access_token s))
     = collection\<lparr>ci_key := normalize_key SUFFIX (ci_key collection)\<rparr>"
  by (cases "call_ckan self ''metadata_collection_create'' access_token
               (translate_to_ckan_collection institution_key
                  (collection\<lparr>ci_key := normalize_key SUFFIX (ci_key collection)\<rparr>)) s")
     (simp add: create_collection_normalized)

lemma create_collection_calls:
  "calls (snd (snd (create_collection SUFFIX self institution_key collection access_token s)))
     = calls s @ [sent self ''metadata_collection_create'' access_token
                    (translate_to_ckan_collection institution_key
                       (collection\<lparr>ci_key := normalize_key SUFFIX (ci_key collection)\<rparr>))]"
  by (cases "call_ckan self ''metadata_collection_create'' access_token
               (translate_to_ckan_collection institution_key
                  (collection\<lparr>ci_key := normalize_key SUFFIX (ci_key collection)\<rparr>)) s")
     (simp add: create_collection_normalized call_ckan_callsD)

lemma getitem_name:
  "getitem (translate_to_ckan_project project) ''name'' = Some (Val (PStr (pr_key project)))"
  by (simp add: translate_to_ckan_project_def)

lemma setarg_id:
  "setarg (translate_to_ckan_project project) ''id'' v
     = translate_to_ckan_project project @ [(''id'', v)]"
  by (simp add: translate_to_ckan_project_def)

lemma project_created:
  assumes "call_ckan self ''infrastructure_create'' access_token
             (translate_to_ckan_project
                (project\<lparr>pr_key := normalize_key SUFFIX (pr_key project)\<rparr>)) s
           = (Inr v, s1)"
  shows "create_or_update_project SUFFIX self project access_token s
           = (case v of
                ProjectDict ckan_project \<Rightarrow> Inr (translate_from_ckan_project ckan_project)
              | _ \<Rightarrow> Inl ShapeError,
              project\<lparr>pr_key := normalize_key SUFFIX (pr_key project)\<rparr>, s1)"
  unfolding create_or_update_project_def normalized_project
  by (simp add: assms split: ckan_value.splits)

lemma project_create_raised:
  assumes "call_ckan self ''infrastructure_create'' access_token
             (translate_to_ckan_project
                (project\<lparr>pr_key := normalize_key SUFFIX (pr_key project)\<rparr>)) s
           = (Inl (HTTPException code d), s1)"
    and "\<not> (code = 400 \<and> contains d ''Group name already exists in database'')"
  shows "create_or_update_project SUFFIX self project access_token s
           = (Inl (HTTPException code d),
              project\<lparr>pr_key := normalize_key SUFFIX (pr_key project)\<rparr>, s1)"
  unfolding create_or_update_project_def normalized_project
  using assms(2) by (cases "code = 400") (simp_all add: assms(1) http_codes Let_def)

lemma project_retried:
  assumes "call_ckan self ''infrastructure_create'' access_token
             (translate_to_ckan_project
                (project\<lparr>pr_key := normalize_key SUFFIX (pr_key project)\<rparr>)) s
           = (Inl (HTTPException 400 d), s1)"
    and "contains d ''Group name already exists in database''"
    and "call_ckan self ''infrastructure_update'' access_token
             (translate_to_ckan_project
                (project\<lparr>pr_key := normalize_key SUFFIX (pr_key project)\<rparr>)
              @ [(''id'', Val (PStr (normalize_key SUFFIX (pr_key project))))]) s1
           = (r2, s2)"
  shows "create_or_update_project SUFFIX self project access_token s
           = (case r2 of
                Inl e \<Rightarrow> Inl e
              | Inr (ProjectDict ckan_project) \<Rightarrow>
                  Inr (translate_from_ckan_project ckan_project)
              | Inr _ \<Rightarrow> Inl ShapeError,
              project\<lparr>pr_key := normalize_key SUFFIX (pr_key project)\<rparr>, s2)"
  unfolding create_or_update_project_def normalized_project
  using assms(2)
  by (simp add: assms(1) http_codes getitem_name setarg_id assms(3)
           split: sum.splits ckan_value.splits)

lemma create_cases:
  obtains (ok) v s1 where "call_ckan self action access_token kwargs s = (Inr v, s1)"
  | (raised) code d s1 where
      "call_ckan self action access_token kwargs s = (Inl (HTTPException code d), s1)"
proof (cases "call_ckan self action access_token kwargs s")
  case (Pair r s1)
  show ?thesis
  proof (cases r)
    case (Inr v)
    with Pair ok show ?thesis by simp
  next
    case (Inl e)
    with Pair call_ckan_raises_http [of self action access_token kwargs s e s1] raised
    show ?thesis by auto
  qed
qed

lemma create_or_update_project_object:
  "fst (snd (create_or_update_project SUFFIX self project access_token s))
     = project\<lparr>pr_key := normalize_key SUFFIX (pr_key project)\<rparr>"
proof (cases rule: create_cases
         [of self "''infrastructure_create''" access_token
             "translate_to_ckan_project
                (project\<lparr>pr_key := normalize_key SUFFIX (pr_key project)\<rparr>)" s])
  case (ok v s1)
  then show ?thesis by (simp add: project_created)
next
  case (raised code d s1)
  show ?thesis
  proof (cases "code = 400 \<and> contains d ''Group name already exists in database''")
    case True
    obtain r2 s2 where
      "call_ckan self ''infrastructure_update'' access_token
         (translate_to_ckan_project
            (project\<lparr>pr_key := normalize_key SUFFIX (pr_key project)\<rparr>)
          @ [(''id'', Val (PStr (normalize_key SUFFIX (pr_key project))))]) s1 = (r2, s2)"
      by (meson prod.exhaust)
    with raised True show ?thesis by (simp add: project_retried)
  next
    case False
    with raised show ?thesis by (simp add: project_create_raised)
  qed
qed

lemma create_or_update_project_first_call:
  "prefix (calls s @ [sent self ''infrastructure_create'' access_token
                        (translate_to_ckan_project
                           (project\<lparr>pr_key := normalize_key SUFFIX (pr_key project)\<rparr>))])
     (calls (snd (snd (create_or_update_project SUFFIX self project access_token s))))"
proof (cases rule: create_cases
         [of self "''infrastructure_create''" access_token
             "translate_to_ckan_project
                (project\<lparr>pr_key := normalize_key SUFFIX (pr_key project)\<rparr>)" s])
  case (ok v s1)
  then show ?thesis by (simp add: project_created call_ckan_callsD)
next
  case (raised code d s1)
  show ?thesis
  proof (cases "code = 400 \<and> contains d ''Group name already exists in database''")
    case True
    obtain r2 s2 where
      u: "call_ckan self ''infrastructure_update'' access_token
         (translate_to_ckan_project
            (project\<lparr>pr_key := normalize_key SUFFIX (pr_key project)\<rparr>)
          @ [(''id'', Val (PStr (normalize_key SUFFIX (pr_key project))))]) s1 = (r2, s2)"
      by (meson prod.exhaust)
    with raised True show ?thesis
      by (simp add: project_retried call_ckan_callsD [OF u] call_ckan_callsD [OF raised]
                    prefix_def)
  next
    case False
    with raised show ?thesis by (simp add: project_create_raised call_ckan_callsD)
  qed
qed

lemma startswith_iff_prefix: "startswith s sub \<longleftrightarrow> prefix sub s"
  by (induction s sub rule: startswith.induct) auto

lemma contains_iff_sublist: "contains s sub \<longleftrightarrow> sublist sub s"
  by (induction s) (simp_all add: startswith_iff_prefix sublist_Cons_right)

text \<open>
  \<^bold>\<open>C9.\<close> Normalizing a key twice gives what normalizing it once gives: a key that ends
  with the suffix is left as it is, and any other key gets the suffix appended.
  \<^verbatim>\<open>create_collection\<close> and \<^verbatim>\<open>create_or_update_project\<close> normalize the key of their input
  before they translate it: the object they leave has the normalized key, the create
  request they send is the translation of that object, and the object a call has left is
  not changed by another call.
\<close>

theorem key_normalization_idempotent:
  "normalize_key SUFFIX (normalize_key SUFFIX key) = normalize_key SUFFIX key
   \<and> (suffix SUFFIX key \<longrightarrow> normalize_key SUFFIX key = key)
   \<and> (\<not> suffix SUFFIX key \<longrightarrow> normalize_key SUFFIX key = key @ SUFFIX)
   \<and> fst (snd (create_collection SUFFIX self institution_key collection access_token s))
       = collection\<lparr>ci_key := normalize_key SUFFIX (ci_key collection)\<rparr>
   \<and> calls (snd (snd (create_collection SUFFIX self institution_key collection
                        access_token s)))
       = calls s @ [sent self ''metadata_collection_create'' access_token
                      (translate_to_ckan_collection institution_key
                         (collection\<lparr>ci_key := normalize_key SUFFIX (ci_key collection)\<rparr>))]
   \<and> fst (snd (create_collection SUFFIX self' institution_key'
                  (fst (snd (create_collection SUFFIX self institution_key collection
                               access_token s)))
                  access_token' s'))
       = fst (snd (create_collection SUFFIX self institution_key collection access_token s))
   \<and> fst (snd (create_or_update_project SUFFIX self project access_token s))
       = project\<lparr>pr_key := normalize_key SUFFIX (pr_key project)\<rparr>
   \<and> prefix (calls s @ [sent self ''infrastructure_create'' access_token
                          (translate_to_ckan_project
                             (project\<lparr>pr_key := normalize_key SUFFIX (pr_key project)\<rparr>))])
       (calls (snd (snd (create_or_update_project SUFFIX self project access_token s))))
   \<and> fst (snd (create_or_update_project SUFFIX self'
                  (fst (snd (create_or_update_project SUFFIX self project access_token s)))
                  access_token' s'))
       = fst (snd (create_or_update_project SUFFIX self project access_token s))"
proof -
  have k: "\<And>k. normalize_key SUFFIX (normalize_key SUFFIX k) = normalize_key SUFFIX k"
    by (rule normalize_key_idem)
  have c2: "fst (snd (create_collection SUFFIX self' institution_key'
                  (fst (snd (create_collection SUFFIX self institution_key collection
                               access_token s)))
                  access_token' s'))
       = fst (snd (create_collection SUFFIX self institution_key collection access_token s))"
    by (simp add: create_collection_object k)
  have p2: "fst (snd (create_or_update_project SUFFIX self'
                  (fst (snd (create_or_update_project SUFFIX self project access_token s)))
                  access_token' s'))
       = fst (snd (create_or_update_project SUFFIX self project access_token s))"
    by (simp add: create_or_update_project_object k)
  have y: "suffix SUFFIX key \<longrightarrow> normalize_key SUFFIX key = key"
    and n: "\<not> suffix SUFFIX key \<longrightarrow> normalize_key SUFFIX key = key @ SUFFIX"
    by (simp_all add: normalize_key_def)
  show ?thesis
    by (intro conjI normalize_key_idem y n create_collection_object create_collection_calls
              c2 create_or_update_project_object create_or_update_project_first_call p2)
qed

theorem key_normalization_idempotent_witness:
  "\<not> suffix ''-collection'' ''rainfall''
   \<and> normalize_key ''-collection'' ''rainfall'' = ''rainfall-collection''
   \<and> suffix ''-collection'' ''rainfall-collection''
   \<and> normalize_key ''-collection'' ''rainfall-collection'' = ''rainfall-collection''
   \<and> ci_key (fst (snd (create_collection ''-collection'' demo_adapter ''saeon''
                          demo_collection ''tok'' (start []))))
       = ''rainfall-collection''
   \<and> pr_key (fst (snd (create_or_update_project ''-project'' demo_adapter demo_project
                          ''tok'' (start []))))
       = ''sasdi-project''"
proof -
  have n: "\<not> suffix ''-collection'' ''rainfall''"
    by (simp add: suffix_to_prefix)
  have y: "suffix ''-collection'' ''rainfall-collection''"
    by (simp add: suffix_to_prefix)
  have p: "\<not> suffix ''-project'' ''sasdi''"
    by (simp add: suffix_to_prefix)
  note k1 = key_normalization_idempotent
              [of "''-collection''" "''rainfall''" demo_adapter "''saeon''" demo_collection
                  "''tok''" "start []" demo_adapter "''saeon''" "''tok''" "start []" demo_project]
  note k2 = key_normalization_idempotent
              [of "''-collection''" "''rainfall-collection''" demo_adapter "''saeon''"
                  demo_collection "''tok''" "start []" demo_adapter "''saeon''" "''tok''"
                  "start []" demo_project]
  note k3 = key_normalization_idempotent
              [of "''-project''" "''sasdi''" demo_adapter "''saeon''" demo_collection
                  "''tok''" "start []" demo_adapter "''saeon''" "''tok''" "start []" demo_project]
  have 1: "normalize_key ''-collection'' ''rainfall'' = ''rainfall-collection''"
    using k1 [THEN conjunct2, THEN conjunct2, THEN conjunct1, THEN mp, OF n] by simp
  have 2: "normalize_key ''-collection'' ''rainfall-collection'' = ''rainfall-collection''"
    using k2 [THEN conjunct2, THEN conjunct1, THEN mp, OF y] .
  have 3: "ci_key (fst (snd (create_collection ''-collection'' demo_adapter ''saeon''
                          demo_collection ''tok'' (start [])))) = ''rainfall-collection''"
    using k1 [THEN conjunct2, THEN conjunct2, THEN conjunct2, THEN conjunct1] 1
    by (simp add: demo_collection_def)
  have pk: "normalize_key ''-project'' ''sasdi'' = ''sasdi-project''"
    using k3 [THEN conjunct2, THEN conjunct2, THEN conjunct1, THEN mp, OF p] by simp
  have 4: "pr_key (fst (snd (create_or_update_project ''-project'' demo_adapter demo_project
                          ''tok'' (start [])))) = ''sasdi-project''"
    using k3 [THEN conjunct2, THEN conjunct2, THEN conjunct2, THEN conjunct2, THEN conjunct2,
              THEN conjunct2, THEN conjunct1] pk
    by (simp add: demo_project_def)
  show ?thesis
    by (intro conjI n y 1 2 3 4)
qed

text \<open>
  \<^bold>\<open>C10.\<close> \<^verbatim>\<open>create_collection\<close> and \<^verbatim>\<open>create_or_update_project\<close> change the object they
  are given: after the call, whether it returned or raised, the caller's object has the
  suffix appended to its key when the key did not end with it, and is otherwise as it was.
\<close>

theorem input_object_mutated:
  "fst (snd (create_collection SUFFIX self institution_key collection access_token s))
     = (if endswith (ci_key collection) SUFFIX then collection
        else collection\<lparr>ci_key := ci_key collection @ SUFFIX\<rparr>)
   \<and> (\<not> endswith (ci_key collection) SUFFIX
      \<longrightarrow> ci_key (fst (snd (create_collection SUFFIX self institution_key collection
                              access_token s)))
            = ci_key collection @ SUFFIX
          \<and> ci_key (fst (snd (create_collection SUFFIX self institution_key collection
                                access_token s)))
            \<noteq> ci_key collection)
   \<and> fst (snd (create_or_update_project SUFFIX self project access_token s))
     = (if endswith (pr_key project) SUFFIX then project
        else project\<lparr>pr_key := pr_key project @ SUFFIX\<rparr>)
   \<and> (\<not> endswith (pr_key project) SUFFIX
      \<longrightarrow> pr_key (fst (snd (create_or_update_project SUFFIX self project access_token s)))
            = pr_key project @ SUFFIX
          \<and> pr_key (fst (snd (create_or_update_project SUFFIX self project access_token s)))
            \<noteq> pr_key project)"
proof -
  have e: "\<And>k. \<not> endswith k SUFFIX \<Longrightarrow> SUFFIX \<noteq> []"
    by (auto simp: endswith_def)
  show ?thesis
    using e [of "ci_key collection"] e [of "pr_key project"]
    by (simp add: create_collection_object create_or_update_project_object
                  normalize_key_def endswith_iff_suffix)
qed

theorem input_object_mutated_witness:
  "\<not> endswith (ci_key demo_collection) ''-collection''
   \<and> fst (create_collection ''-collection'' demo_adapter ''saeon'' demo_collection ''tok''
            (start []))
     = Inl (HTTPException 503 ''Error sending request to CKAN: connection refused'')
   \<and> fst (snd (create_collection ''-collection'' demo_adapter ''saeon'' demo_collection
                  ''tok'' (start [])))
     = demo_collection\<lparr>ci_key := ''rainfall-collection''\<rparr>
   \<and> \<not> endswith (pr_key demo_project) ''-project''
   \<and> fst (snd (create_or_update_project ''-project'' demo_adapter demo_project ''tok''
                  (start [])))
     = demo_project\<lparr>pr_key := ''sasdi-project''\<rparr>"
proof -
  have c: "\<not> endswith (ci_key demo_collection) ''-collection''"
    by (simp add: endswith_def demo_collection_def)
  have p: "\<not> endswith (pr_key demo_project) ''-project''"
    by (simp add: endswith_def demo_project_def)
  note m = input_object_mutated
             [of "''-collection''" demo_adapter "''saeon''" demo_collection "''tok''" "start []"]
  note m' = input_object_mutated
             [of "''-project''" demo_adapter "''saeon''" demo_collection "''tok''" "start []"
                 demo_project]
  have 1: "fst (snd (create_collection ''-collection'' demo_adapter ''saeon'' demo_collection
                  ''tok'' (start [])))
           = demo_collection\<lparr>ci_key := ''rainfall-collection''\<rparr>"
    using m [THEN conjunct1] c by (simp add: demo_collection_def)
  have 2: "fst (snd (create_or_update_project ''-project'' demo_adapter demo_project ''tok''
                  (start [])))
           = demo_project\<lparr>pr_key := ''sasdi-project''\<rparr>"
    using m' [THEN conjunct2, THEN conjunct2, THEN conjunct1] p
    by (simp add: demo_project_def)
  have 3: "fst (create_collection ''-collection'' demo_adapter ''saeon'' demo_collection ''tok''
            (start []))
     = Inl (HTTPException 503 ''Error sending request to CKAN: connection refused'')"
    by (simp add: create_collection_def run_defs)
  show ?thesis
    by (intro conjI c 3 1 p 2)
qed

text \<open>
  \<^bold>\<open>C2.\<close> The project upsert sends \<^verbatim>\<open>infrastructure_create\<close> with the translation of the
  project under its normalized key. When that returns, nothing else is sent. When it
  fails with status 400 and a detail that contains
  \<^verbatim>\<open>Group name already exists in database\<close>, one \<^verbatim>\<open>infrastructure_update\<close> is sent, with
  the same name, title and description and the normalized key as \<^verbatim>\<open>id\<close>, and its outcome
  is the outcome of the upsert. When the create fails in any other way (another status,
  or another detail), its error is raised as it is and no update is sent.
\<close>

theorem project_upsert_retries_on_name_collision:
  "translate_to_ckan_project (project\<lparr>pr_key := normalize_key SUFFIX (pr_key project)\<rparr>)
     = [(''name'', Val (PStr (normalize_key SUFFIX (pr_key project)))),
        (''title'', Val (PStr (pr_name project))),
        (''description'', Val (opt_str (pr_description project)))]
   \<and> (call_ckan self ''infrastructure_create'' access_token
          (translate_to_ckan_project
             (project\<lparr>pr_key := normalize_key SUFFIX (pr_key project)\<rparr>)) s
        = (Inr v, s1)
      \<longrightarrow> create_or_update_project SUFFIX self project access_token s
          = (case v of
               ProjectDict ckan_project \<Rightarrow> Inr (translate_from_ckan_project ckan_project)
             | _ \<Rightarrow> Inl ShapeError,
             project\<lparr>pr_key := normalize_key SUFFIX (pr_key project)\<rparr>, s1)
        \<and> calls s1 = calls s @ [sent self ''infrastructure_create'' access_token
             (translate_to_ckan_project
                (project\<lparr>pr_key := normalize_key SUFFIX (pr_key project)\<rparr>))])
   \<and> (call_ckan self ''infrastructure_create'' access_token
          (translate_to_ckan_project
             (project\<lparr>pr_key := normalize_key SUFFIX (pr_key project)\<rparr>)) s
        = (Inl (HTTPException code d), s1)
      \<and> \<not> (code = 400 \<and> contains d ''Group name already exists in database'')
      \<longrightarrow> create_or_update_project SUFFIX self project access_token s
          = (Inl (HTTPException code d),
             project\<lparr>pr_key := normalize_key SUFFIX (pr_key project)\<rparr>, s1)
        \<and> calls s1 = calls s @ [sent self ''infrastructure_create'' access_token
             (translate_to_ckan_project
                (project\<lparr>pr_key := normalize_key SUFFIX (pr_key project)\<rparr>))])
   \<and> (call_ckan self ''infrastructure_create'' access_token
          (translate_to_ckan_project
             (project\<lparr>pr_key := normalize_key SUFFIX (pr_key project)\<rparr>)) s
        = (Inl (HTTPException 400 d), s1)
      \<and> contains d ''Group name already exists in database''
      \<and> call_ckan self ''infrastructure_update'' access_token
          (translate_to_ckan_project
             (project\<lparr>pr_key := normalize_key SUFFIX (pr_key project)\<rparr>)
           @ [(''id'', Val (PStr (normalize_key SUFFIX (pr_key project))))]) s1
        = (r2, s2)
      \<longrightarrow> create_or_update_project SUFFIX self project access_token s
          = (case r2 of
               Inl e \<Rightarrow> Inl e
             | Inr (ProjectDict ckan_project) \<Rightarrow>
                 Inr (translate_from_ckan_project ckan_project)
             | Inr _ \<Rightarrow> Inl ShapeError,
             project\<lparr>pr_key := normalize_key SUFFIX (pr_key project)\<rparr>, s2)
        \<and> calls s2 = calls s @ [sent self ''infrastructure_create'' access_token
             (translate_to_ckan_project
                (project\<lparr>pr_key := normalize_key SUFFIX (pr_key project)\<rparr>)),
             sent self ''infrastructure_update'' access_token
             (translate_to_ckan_project
                (project\<lparr>pr_key := normalize_key SUFFIX (pr_key project)\<rparr>)
              @ [(''id'', Val (PStr (normalize_key SUFFIX (pr_key project))))])])"
proof -
  let ?D = "translate_to_ckan_project
              (project\<lparr>pr_key := normalize_key SUFFIX (pr_key project)\<rparr>)"
  have t: "?D = [(''name'', Val (PStr (normalize_key SUFFIX (pr_key project)))),
                 (''title'', Val (PStr (pr_name project))),
                 (''description'', Val (opt_str (pr_description project)))]"
    by (simp add: translate_to_ckan_project_def)
  have a: "call_ckan self ''infrastructure_create'' access_token ?D s = (Inr v, s1)
           \<longrightarrow> create_or_update_project SUFFIX self project access_token s
               = (case v of
                    ProjectDict ckan_project \<Rightarrow> Inr (translate_from_ckan_project ckan_project)
                  | _ \<Rightarrow> Inl ShapeError,
                  project\<lparr>pr_key := normalize_key SUFFIX (pr_key project)\<rparr>, s1)
             \<and> calls s1 = calls s @ [sent self ''infrastructure_create'' access_token ?D]"
  proof (intro impI)
    assume h: "call_ckan self ''infrastructure_create'' access_token ?D s = (Inr v, s1)"
    show "create_or_update_project SUFFIX self project access_token s
               = (case v of
                    ProjectDict ckan_project \<Rightarrow> Inr (translate_from_ckan_project ckan_project)
                  | _ \<Rightarrow> Inl ShapeError,
                  project\<lparr>pr_key := normalize_key SUFFIX (pr_key project)\<rparr>, s1)
             \<and> calls s1 = calls s @ [sent self ''infrastructure_create'' access_token ?D]"
      using project_created [OF h] call_ckan_callsD [OF h] by simp
  qed
  have b: "call_ckan self ''infrastructure_create'' access_token ?D s
             = (Inl (HTTPException code d), s1)
           \<and> \<not> (code = 400 \<and> contains d ''Group name already exists in database'')
           \<longrightarrow> create_or_update_project SUFFIX self project access_token s
               = (Inl (HTTPException code d),
                  project\<lparr>pr_key := normalize_key SUFFIX (pr_key project)\<rparr>, s1)
             \<and> calls s1 = calls s @ [sent self ''infrastructure_create'' access_token ?D]"
  proof (intro impI, elim conjE)
    assume h: "call_ckan self ''infrastructure_create'' access_token ?D s
                 = (Inl (HTTPException code d), s1)"
      and n: "\<not> (code = 400 \<and> contains d ''Group name already exists in database'')"
    show "create_or_update_project SUFFIX self project access_token s
               = (Inl (HTTPException code d),
                  project\<lparr>pr_key := normalize_key SUFFIX (pr_key project)\<rparr>, s1)
             \<and> calls s1 = calls s @ [sent self ''infrastructure_create'' access_token ?D]"
      using project_create_raised [OF h n] call_ckan_callsD [OF h] by simp
  qed
  have c: "call_ckan self ''infrastructure_create'' access_token ?D s
             = (Inl (HTTPException 400 d), s1)
           \<and> contains d ''Group name already exists in database''
           \<and> call_ckan self ''infrastructure_update'' access_token
                (?D @ [(''id'', Val (PStr (normalize_key SUFFIX (pr_key project))))]) s1
             = (r2, s2)
           \<longrightarrow> create_or_update_project SUFFIX self project access_token s
               = (case r2 of
                    Inl e \<Rightarrow> Inl e
                  | Inr (ProjectDict ckan_project) \<Rightarrow>
                      Inr (translate_from_ckan_project ckan_project)
                  | Inr _ \<Rightarrow> Inl ShapeError,
                  project\<lparr>pr_key := normalize_key SUFFIX (pr_key project)\<rparr>, s2)
             \<and> calls s2 = calls s @ [sent self ''infrastructure_create'' access_token ?D,
                  sent self ''infrastructure_update'' access_token
                    (?D @ [(''id'', Val (PStr (normalize_key SUFFIX (pr_key project))))])]"
  proof (intro impI, elim conjE)
    assume h: "call_ckan self ''infrastructure_create'' access_token ?D s
                 = (Inl (HTTPException 400 d), s1)"
      and m: "contains d ''Group name already exists in database''"
      and u: "call_ckan self ''infrastructure_update'' access_token
                (?D @ [(''id'', Val (PStr (normalize_key SUFFIX (pr_key project))))]) s1
              = (r2, s2)"
    show "create_or_update_project SUFFIX self project access_token s
               = (case r2 of
                    Inl e \<Rightarrow> Inl e
                  | Inr (ProjectDict ckan_project) \<Rightarrow>
                      Inr (translate_from_ckan_project ckan_project)
                  | Inr _ \<Rightarrow> Inl ShapeError,
                  project\<lparr>pr_key := normalize_key SUFFIX (pr_key project)\<rparr>, s2)
             \<and> calls s2 = calls s @ [sent self ''infrastructure_create'' access_token ?D,
                  sent self ''infrastructure_update'' access_token
                    (?D @ [(''id'', Val (PStr (normalize_key SUFFIX (pr_key project))))])]"
      using project_retried [OF h m u] call_ckan_callsD [OF h] call_ckan_callsD [OF u]
      by simp
  qed
  show ?thesis
    by (intro conjI t a b c)
qed

theorem project_upsert_retries_on_name_collision_witness:
  "contains ''CKAN validation error: Group name already exists in database''
     ''Group name already exists in database''
   \<and> create_or_update_project ''-project'' demo_adapter demo_project ''tok''
       (start [Inl (ValidationError ''Group name already exists in database''),
               Inr (ProjectDict stored_project)])
     = (Inr (translate_from_ckan_project stored_project),
        demo_project\<lparr>pr_key := ''sasdi-project''\<rparr>,
        \<lparr>backend = [],
         calls = [sent demo_adapter ''infrastructure_create'' ''tok'' project_kwargs,
                  sent demo_adapter ''infrastructure_update'' ''tok''
                    (project_kwargs @ [(''id'', Val (PStr ''sasdi-project''))])],
         logged = []\<rparr>)
   \<and> \<not> contains ''CKAN validation error: Name must be lowercase''
         ''Group name already exists in database''
   \<and> create_or_update_project ''-project'' demo_adapter demo_project ''tok''
       (start [Inl (ValidationError ''Name must be lowercase''),
               Inr (ProjectDict stored_project)])
     = (Inl (HTTPException 400 ''CKAN validation error: Name must be lowercase''),
        demo_project\<lparr>pr_key := ''sasdi-project''\<rparr>,
        \<lparr>backend = [Inr (ProjectDict stored_project)],
         calls = [sent demo_adapter ''infrastructure_create'' ''tok'' project_kwargs],
         logged = []\<rparr>)
   \<and> create_or_update_project ''-project'' demo_adapter demo_project ''tok''
       (start [Inl (NotAuthorized ''Group name already exists in database''),
               Inr (ProjectDict stored_project)])
     = (Inl (HTTPException 403
               ''Not authorized to access CKAN resource: Group name already exists in database''),
        demo_project\<lparr>pr_key := ''sasdi-project''\<rparr>,
        \<lparr>backend = [Inr (ProjectDict stored_project)],
         calls = [sent demo_adapter ''infrastructure_create'' ''tok'' project_kwargs],
         logged = []\<rparr>)"
proof -
  let ?K = "normalize_key ''-project'' (pr_key demo_project)"
  let ?D = "translate_to_ckan_project (demo_project\<lparr>pr_key := ?K\<rparr>)"
  let ?create = "sent demo_adapter ''infrastructure_create'' ''tok'' project_kwargs"
  let ?update = "sent demo_adapter ''infrastructure_update'' ''tok''
                   (project_kwargs @ [(''id'', Val (PStr ''sasdi-project''))])"
  have k: "?K = ''sasdi-project''"
    by (simp add: normalize_key_def suffix_to_prefix demo_project_def)
  have d: "?D = project_kwargs"
    unfolding k
    by (simp add: translate_to_ckan_project_def demo_project_def project_kwargs_def
                  opt_str_def)
  have m1: "contains ''CKAN validation error: Group name already exists in database''
              ''Group name already exists in database''"
    by simp
  have m2: "\<not> contains ''CKAN validation error: Name must be lowercase''
              ''Group name already exists in database''"
    by simp
  \<comment> \<open>the name is taken: one update\<close>
  let ?s1 = "\<lparr>backend = [Inr (ProjectDict stored_project)], calls = [?create],
              logged = []\<rparr> :: script world"
  let ?s2 = "\<lparr>backend = [], calls = [?create, ?update], logged = []\<rparr> :: script world"
  have a1: "call_ckan demo_adapter ''infrastructure_create'' ''tok'' ?D
              (start [Inl (ValidationError ''Group name already exists in database''),
                      Inr (ProjectDict stored_project)])
            = (Inl (HTTPException 400
                      ''CKAN validation error: Group name already exists in database''), ?s1)"
    unfolding d by (simp add: run_defs)
  have a2: "call_ckan demo_adapter ''infrastructure_update'' ''tok''
              (?D @ [(''id'', Val (PStr ?K))]) ?s1
            = (Inr (ProjectDict stored_project), ?s2)"
    unfolding k d [unfolded k] by (simp add: run_defs)
  note t = project_upsert_retries_on_name_collision
  have r1: "create_or_update_project ''-project'' demo_adapter demo_project ''tok''
              (start [Inl (ValidationError ''Group name already exists in database''),
                      Inr (ProjectDict stored_project)])
            = (Inr (translate_from_ckan_project stored_project),
               demo_project\<lparr>pr_key := ''sasdi-project''\<rparr>, ?s2)"
    using t [THEN conjunct2, THEN conjunct2, THEN conjunct2, THEN mp,
             OF conjI [OF a1 conjI [OF m1 a2]], THEN conjunct1]
    by (simp add: k)
  \<comment> \<open>another message: the error is raised\<close>
  have b1: "call_ckan demo_adapter ''infrastructure_create'' ''tok'' ?D
              (start [Inl (ValidationError ''Name must be lowercase''),
                      Inr (ProjectDict stored_project)])
            = (Inl (HTTPException 400 ''CKAN validation error: Name must be lowercase''), ?s1)"
    unfolding d by (simp add: run_defs)
  have b2: "\<not> ((400::nat) = 400
               \<and> contains ''CKAN validation error: Name must be lowercase''
                    ''Group name already exists in database'')"
    using m2 by simp
  have r2: "create_or_update_project ''-project'' demo_adapter demo_project ''tok''
              (start [Inl (ValidationError ''Name must be lowercase''),
                      Inr (ProjectDict stored_project)])
            = (Inl (HTTPException 400 ''CKAN validation error: Name must be lowercase''),
               demo_project\<lparr>pr_key := ''sasdi-project''\<rparr>, ?s1)"
    using t [THEN conjunct2, THEN conjunct2, THEN conjunct1, THEN mp,
             OF conjI [OF b1 b2], THEN conjunct1]
    by (simp add: k)
  \<comment> \<open>another status: the error is raised\<close>
  have c1: "call_ckan demo_adapter ''infrastructure_create'' ''tok'' ?D
              (start [Inl (NotAuthorized ''Group name already exists in database''),
                      Inr (ProjectDict stored_project)])
            = (Inl (HTTPException 403
                 ''Not authorized to access CKAN resource: Group name already exists in database''),
               ?s1)"
    unfolding d by (simp add: run_defs)
  have c2: "\<not> ((403::nat) = 400
               \<and> contains
                    ''Not authorized to access CKAN resource: Group name already exists in database''
                    ''Group name already exists in database'')"
    by simp
  have r3: "create_or_update_project ''-project'' demo_adapter demo_project ''tok''
              (start [Inl (NotAuthorized ''Group name already exists in database''),
                      Inr (ProjectDict stored_project)])
            = (Inl (HTTPException 403
                 ''Not authorized to access CKAN resource: Group name already exists in database''),
               demo_project\<lparr>pr_key := ''sasdi-project''\<rparr>, ?s1)"
    using t [THEN conjunct2, THEN conjunct2, THEN conjunct1, THEN mp,
             OF conjI [OF c1 c2], THEN conjunct1]
    by (simp add: k)
  show ?thesis
    by (intro conjI m1 r1 m2 r2 r3)
qed

subsection \<open>Merging validation errors\<close>

lemma map_of_setitem: "map_of (setitem d k v) = (map_of d)(k \<mapsto> v)"
  by (induction d) auto

lemma keys_setitem: "fst ` set (setitem d k v) = insert k (fst ` set d)"
  by (induction d) auto

lemma distinct_setitem:
  "distinct (map fst d) \<Longrightarrow> distinct (map fst (setitem d k v))"
  by (induction d) (auto simp: keys_setitem)

lemma map_of_dict_update_rev:
  "map_of (dict_update d other) = map_of d ++ map_of (rev other)"
proof (induction other arbitrary: d)
  case Nil
  then show ?case by (simp add: dict_update_def)
next
  case (Cons p ps)
  obtain k v where p: "p = (k, v)" by (cases p)
  have "map_of (dict_update d (p # ps)) = map_of (dict_update (setitem d k v) ps)"
    by (simp add: dict_update_def p)
  also have "\<dots> = (map_of d)(k \<mapsto> v) ++ map_of (rev ps)"
    by (simp only: Cons.IH map_of_setitem)
  also have "\<dots> = map_of d ++ map_of (rev (p # ps))"
    by (simp add: p map_add_upd_left map_add_def fun_eq_iff split: option.splits)
  finally show ?case .
qed

lemma map_of_rev_distinct:
  "distinct (map fst xs) \<Longrightarrow> map_of (rev xs) = map_of xs"
proof (induction xs)
  case Nil
  then show ?case by simp
next
  case (Cons p ps)
  then have "map_of ps (fst p) = None"
    by (simp add: map_of_eq_None_iff)
  with Cons show ?case
    by (auto simp: fun_eq_iff map_add_def split: option.splits)
qed

lemma map_of_dict_update:
  "distinct (map fst other) \<Longrightarrow> map_of (dict_update d other) = map_of d ++ map_of other"
  by (simp add: map_of_dict_update_rev map_of_rev_distinct)

lemma distinct_dict_update:
  "distinct (map fst d) \<Longrightarrow> distinct (map fst (dict_update d other))"
  unfolding dict_update_def
  by (induction other arbitrary: d) (auto simp: distinct_setitem)

lemma map_of_merge_loop_rev:
  "map_of (foldl (\<lambda>validation_errors validation_result.
                    dict_update validation_errors (f_errors validation_result)) d frs)
     = map_of d ++ map_of (rev (concat (map f_errors frs)))"
  by (induction frs arbitrary: d) (simp_all add: map_of_dict_update_rev)

lemma map_of_merge_loop:
  "\<forall>f \<in> set frs. distinct (map fst (f_errors f)) \<Longrightarrow>
   map_of (foldl (\<lambda>validation_errors validation_result.
                    dict_update validation_errors (f_errors validation_result)) d frs)
     = foldl (\<lambda>merged fragment. merged ++ map_of (f_errors fragment)) (map_of d) frs"
  by (induction frs arbitrary: d) (simp_all add: map_of_dict_update)

lemma map_of_merge_loop_last:
  "map_of (foldl (\<lambda>validation_errors validation_result.
                    dict_update validation_errors (f_errors validation_result)) d frs)
     = foldl (\<lambda>merged fragment. merged ++ map_of (rev (f_errors fragment))) (map_of d) frs"
  by (induction frs arbitrary: d) (simp_all add: map_of_dict_update_rev)

lemma distinct_merge_loop:
  "distinct (map fst d) \<Longrightarrow>
   distinct (map fst (foldl (\<lambda>validation_errors validation_result.
                               dict_update validation_errors (f_errors validation_result))
                        d frs))"
  by (induction frs arbitrary: d) (simp_all add: distinct_dict_update)

lemma merge_loop_from:
  "foldl (\<lambda>merged fragment. merged ++ map_of (f_errors fragment)) m frs
     = m ++ merged_errors frs"
  unfolding merged_errors_def
  by (induction frs rule: rev_induct) simp_all

lemma merged_errors_append:
  "merged_errors (pre @ post) = merged_errors pre ++ merged_errors post"
  using merge_loop_from [of "merged_errors pre" post]
  by (simp add: merged_errors_def)

lemma merged_errors_none:
  "\<forall>f \<in> set frs. map_of (f_errors f) k = None \<Longrightarrow> merged_errors frs k = None"
  unfolding merged_errors_def
  by (induction frs rule: rev_induct) (simp_all add: map_add_def)

lemma merged_errors_last_wins:
  assumes "map_of (f_errors f) k = Some v"
    and "\<forall>g \<in> set post. map_of (f_errors g) k = None"
  shows "merged_errors (pre @ f # post) k = Some v"
proof -
  have "merged_errors (pre @ f # post)
          = (merged_errors pre ++ map_of (f_errors f)) ++ merged_errors post"
    using merged_errors_append [of "pre @ [f]" post] merged_errors_append [of pre "[f]"]
    by (simp add: merged_errors_def)
  with assms merged_errors_none [OF assms(2)] show ?thesis
    by (simp add: map_add_def)
qed

lemma validate_returns:
  assumes "get_metadata_record self institution_key record_id access_token s = (Inr found, s1)"
    and "call_ckan self ''metadata_record_validate'' access_token
           [(''id'', Val (PStr record_id))] s1 = (Inr (ValidationActivity frs), s2)"
  shows "validate_metadata_record self institution_key record_id access_token s
           = (Inr \<lparr>vr_success =
                      (foldl (\<lambda>validation_errors validation_result.
                                dict_update validation_errors (f_errors validation_result))
                         [] frs = []),
                    vr_errors =
                      foldl (\<lambda>validation_errors validation_result.
                               dict_update validation_errors (f_errors validation_result))
                        [] frs\<rparr>, s2)"
  using assms by (simp add: validate_metadata_record_def Let_def)

lemma validate_returned:
  assumes "validate_metadata_record self institution_key record_id access_token s
             = (Inr result, s2)"
  shows "\<exists>found s1 frs.
           get_metadata_record self institution_key record_id access_token s = (Inr found, s1)
           \<and> call_ckan self ''metadata_record_validate'' access_token
                 [(''id'', Val (PStr record_id))] s1 = (Inr (ValidationActivity frs), s2)"
  using assms
  by (auto simp: validate_metadata_record_def Let_def
           split: prod.splits sum.splits ckan_value.splits)

text \<open>
  \<^bold>\<open>C7.\<close> When the scoped check passes and the validate action returns its fragments, the
  validate operation returns a result whose errors, read as a mapping, are the merged
  errors of the fragments: for each key the value of the last fragment that has it, and
  nothing for a key no fragment has. The success flag is true exactly when that mapping is
  empty. Every validate operation that returns a result is of this kind. (A Python
  dictionary has each key once; this is the condition on the fragments. Whatever the item
  lists of the fragments, a key has the value of its last item in the fragments taken one
  after the other, which is the union in fragment order with each item list read last
  item first.)
\<close>

theorem validation_errors_merged_last_wins:
  "(get_metadata_record self institution_key record_id access_token s = (Inr found, s1)
    \<and> call_ckan self ''metadata_record_validate'' access_token
         [(''id'', Val (PStr record_id))] s1 = (Inr (ValidationActivity frs), s2)
    \<longrightarrow> (\<exists>result.
           validate_metadata_record self institution_key record_id access_token s
             = (Inr result, s2)
           \<and> map_of (vr_errors result) = map_of (rev (concat (map f_errors frs)))
           \<and> map_of (vr_errors result)
               = foldl (\<lambda>merged fragment. merged ++ map_of (rev (f_errors fragment)))
                   Map.empty frs
           \<and> ((\<forall>f \<in> set frs. distinct (map fst (f_errors f)))
                \<longrightarrow> map_of (vr_errors result) = merged_errors frs)
           \<and> distinct (map fst (vr_errors result))
           \<and> vr_success result = (map_of (vr_errors result) = Map.empty)))
   \<and> (validate_metadata_record self institution_key record_id access_token s
        = (Inr result', s2')
      \<longrightarrow> (\<exists>found' s1' frs'.
             get_metadata_record self institution_key record_id access_token s
               = (Inr found', s1')
             \<and> call_ckan self ''metadata_record_validate'' access_token
                   [(''id'', Val (PStr record_id))] s1' = (Inr (ValidationActivity frs'), s2')))
   \<and> merged_errors [] = Map.empty
   \<and> merged_errors (pre @ [f]) = merged_errors pre ++ map_of (f_errors f)
   \<and> (map_of (f_errors f) k = Some v
       \<and> (\<forall>g \<in> set post. map_of (f_errors g) k = None)
      \<longrightarrow> merged_errors (pre @ f # post) k = Some v)
   \<and> ((\<forall>g \<in> set frs. map_of (f_errors g) k = None) \<longrightarrow> merged_errors frs k = None)"
proof -
  let ?E = "foldl (\<lambda>validation_errors validation_result.
                     dict_update validation_errors (f_errors validation_result)) [] frs"
  have a: "get_metadata_record self institution_key record_id access_token s = (Inr found, s1)
    \<and> call_ckan self ''metadata_record_validate'' access_token
         [(''id'', Val (PStr record_id))] s1 = (Inr (ValidationActivity frs), s2)
    \<longrightarrow> (\<exists>result.
           validate_metadata_record self institution_key record_id access_token s
             = (Inr result, s2)
           \<and> map_of (vr_errors result) = map_of (rev (concat (map f_errors frs)))
           \<and> map_of (vr_errors result)
               = foldl (\<lambda>merged fragment. merged ++ map_of (rev (f_errors fragment)))
                   Map.empty frs
           \<and> ((\<forall>f \<in> set frs. distinct (map fst (f_errors f)))
                \<longrightarrow> map_of (vr_errors result) = merged_errors frs)
           \<and> distinct (map fst (vr_errors result))
           \<and> vr_success result = (map_of (vr_errors result) = Map.empty))"
  proof (intro impI, elim conjE)
    assume g: "get_metadata_record self institution_key record_id access_token s
                 = (Inr found, s1)"
      and c: "call_ckan self ''metadata_record_validate'' access_token
                [(''id'', Val (PStr record_id))] s1 = (Inr (ValidationActivity frs), s2)"
    have 1: "map_of ?E = map_of (rev (concat (map f_errors frs)))"
      using map_of_merge_loop_rev [of "[]" frs] by simp
    have l: "map_of ?E = foldl (\<lambda>merged fragment. merged ++ map_of (rev (f_errors fragment)))
                           Map.empty frs"
      using map_of_merge_loop_last [of "[]" frs] by simp
    have 2: "(\<forall>f \<in> set frs. distinct (map fst (f_errors f)))
               \<longrightarrow> map_of ?E = merged_errors frs"
      using map_of_merge_loop [of frs "[]"] by (simp add: merged_errors_def)
    have 3: "distinct (map fst ?E)"
      using distinct_merge_loop [of "[]" frs] by simp
    have 4: "(?E = []) = (map_of ?E = Map.empty)"
      by simp
    show "\<exists>result.
           validate_metadata_record self institution_key record_id access_token s
             = (Inr result, s2)
           \<and> map_of (vr_errors result) = map_of (rev (concat (map f_errors frs)))
           \<and> map_of (vr_errors result)
               = foldl (\<lambda>merged fragment. merged ++ map_of (rev (f_errors fragment)))
                   Map.empty frs
           \<and> ((\<forall>f \<in> set frs. distinct (map fst (f_errors f)))
                \<longrightarrow> map_of (vr_errors result) = merged_errors frs)
           \<and> distinct (map fst (vr_errors result))
           \<and> vr_success result = (map_of (vr_errors result) = Map.empty)"
      using validate_returns [OF g c] 1 l 2 3 4
      by (intro exI [of _ "\<lparr>vr_success = (?E = []), vr_errors = ?E\<rparr>"]) simp
  qed
  have a': "validate_metadata_record self institution_key record_id access_token s
              = (Inr result', s2')
      \<longrightarrow> (\<exists>found' s1' frs'.
             get_metadata_record self institution_key record_id access_token s
               = (Inr found', s1')
             \<and> call_ckan self ''metadata_record_validate'' access_token
                   [(''id'', Val (PStr record_id))] s1' = (Inr (ValidationActivity frs'), s2'))"
    using validate_returned [of self institution_key record_id access_token s result' s2']
    by blast
  have b: "merged_errors [] = Map.empty"
    by (simp add: merged_errors_def)
  have c: "merged_errors (pre @ [f]) = merged_errors pre ++ map_of (f_errors f)"
    by (simp add: merged_errors_def)
  have d: "map_of (f_errors f) k = Some v
       \<and> (\<forall>g \<in> set post. map_of (f_errors g) k = None)
      \<longrightarrow> merged_errors (pre @ f # post) k = Some v"
    using merged_errors_last_wins [of f k v post pre] by blast
  have e: "(\<forall>g \<in> set frs. map_of (f_errors g) k = None) \<longrightarrow> merged_errors frs k = None"
    using merged_errors_none [of frs k] by blast
  show ?thesis
    by (intro conjI a a' b c d e)
qed

theorem validation_errors_merged_last_wins_witness:
  "list_all (\<lambda>f. distinct (map fst (f_errors f))) validation_fragments
   \<and> validate_metadata_record demo_adapter ''saeon'' ''rec-1'' ''tok''
       (start [Inr (RecordDict demo_record), Inr (ValidationActivity validation_fragments)])
     = (Inr \<lparr>vr_success = False,
              vr_errors = [(''title'', PStr ''is too short''),
                           (''doi'', PStr ''is malformed'')]\<rparr>,
        \<lparr>backend = [],
         calls = [sent demo_adapter ''metadata_record_show'' ''tok'' show_kwargs,
                  sent demo_adapter ''metadata_record_validate'' ''tok''
                    [(''id'', Val (PStr ''rec-1''))]],
         logged = []\<rparr>)
   \<and> map_of [(''title'', PStr ''is too short''), (''doi'', PStr ''is malformed'')]
     = merged_errors validation_fragments
   \<and> merged_errors validation_fragments ''title'' = Some (PStr ''is too short'')
   \<and> merged_errors validation_fragments ''doi'' = Some (PStr ''is malformed'')
   \<and> merged_errors validation_fragments ''metadata'' = None"
proof -
  let ?f1 = "\<lparr>f_errors = [(''title'', PStr ''is missing''),
                           (''doi'', PStr ''is malformed'')]\<rparr>"
  let ?f2 = "\<lparr>f_errors = [(''title'', PStr ''is too short'')]\<rparr>"
  let ?s = "start [Inr (RecordDict demo_record),
                   Inr (ValidationActivity validation_fragments)]"
  let ?s1 = "\<lparr>backend = [Inr (ValidationActivity validation_fragments)],
              calls = [sent demo_adapter ''metadata_record_show'' ''tok'' show_kwargs],
              logged = []\<rparr> :: script world"
  let ?s2 = "\<lparr>backend = [],
              calls = [sent demo_adapter ''metadata_record_show'' ''tok'' show_kwargs,
                       sent demo_adapter ''metadata_record_validate'' ''tok''
                         [(''id'', Val (PStr ''rec-1''))]],
              logged = []\<rparr> :: script world"
  let ?R = "\<lparr>vr_success = False,
             vr_errors = [(''title'', PStr ''is too short''),
                          (''doi'', PStr ''is malformed'')]\<rparr>"
  have w: "list_all (\<lambda>f. distinct (map fst (f_errors f))) validation_fragments"
    by (simp add: validation_fragments_def)
  then have w': "\<forall>f \<in> set validation_fragments. distinct (map fst (f_errors f))"
    by (simp add: list_all_iff)
  have g: "get_metadata_record demo_adapter ''saeon'' ''rec-1'' ''tok'' ?s
             = (Inr (translate_from_ckan_record demo_record), ?s1)"
    by (simp add: get_metadata_record_def run_defs demo_record_def show_kwargs_def)
  have c: "call_ckan demo_adapter ''metadata_record_validate'' ''tok''
             [(''id'', Val (PStr ''rec-1''))] ?s1
           = (Inr (ValidationActivity validation_fragments), ?s2)"
    by (simp add: run_defs)
  note t = validation_errors_merged_last_wins
  from t [of demo_adapter "''saeon''" "''rec-1''" "''tok''" ?s
             "translate_from_ckan_record demo_record" ?s1 validation_fragments ?s2,
          THEN conjunct1, THEN mp, OF conjI [OF g c]]
  obtain result where
    v: "validate_metadata_record demo_adapter ''saeon'' ''rec-1'' ''tok'' ?s
          = (Inr result, ?s2)"
    and m: "(\<forall>f \<in> set validation_fragments. distinct (map fst (f_errors f)))
              \<longrightarrow> map_of (vr_errors result) = merged_errors validation_fragments"
    by blast
  have e: "validate_metadata_record demo_adapter ''saeon'' ''rec-1'' ''tok'' ?s = (Inr ?R, ?s2)"
    unfolding validate_returns [OF g c]
    by (simp add: dict_update_def validation_fragments_def)
  from v e have "result = ?R" by simp
  with m w' have 1: "map_of [(''title'', PStr ''is too short''), (''doi'', PStr ''is malformed'')]
                      = merged_errors validation_fragments"
    by simp
  have 2: "merged_errors validation_fragments ''title'' = Some (PStr ''is too short'')"
    using t [where pre = "[?f1]" and f = ?f2 and k = "''title''"
               and v = "PStr ''is too short''" and post = "[]",
             THEN conjunct2, THEN conjunct2, THEN conjunct2, THEN conjunct2, THEN conjunct1]
    by (simp add: validation_fragments_def)
  have 3: "merged_errors validation_fragments ''doi'' = Some (PStr ''is malformed'')"
    using t [where pre = "[]" and f = ?f1 and k = "''doi''"
               and v = "PStr ''is malformed''" and post = "[?f2]",
             THEN conjunct2, THEN conjunct2, THEN conjunct2, THEN conjunct2, THEN conjunct1]
    by (simp add: validation_fragments_def)
  have 4: "merged_errors validation_fragments ''metadata'' = None"
    using t [where frs = validation_fragments and k = "''metadata''",
             THEN conjunct2, THEN conjunct2, THEN conjunct2, THEN conjunct2, THEN conjunct2]
    by (simp add: validation_fragments_def)
  show ?thesis
    by (intro conjI w e 1 2 3 4)
qed

end
